theory Spec2Isabelle
  imports Main "HOL-Library.AList"
begin

text \<open>
  A model of the core of Whisper: the bounded buffer and the rate limiter, the chat
  Directory (\<^verbatim>\<open>ChatState\<close>) with its event listeners, the room router
  (\<^verbatim>\<open>ChatPubSub\<close>), the session (\<^verbatim>\<open>UserSession\<close>) and the command processor.
  The definitions follow the TypeScript sources function by function; the theorems are
  stated on them.
\<close>

section \<open>Strings\<close>

text \<open>
  A JavaScript string is modelled as a \<^typ>\<open>string\<close>: the list of its code units, each
  below 256. The sanitizers of \<^verbatim>\<open>src/chat/commands.ts\<close> strip every unit outside
  \<^verbatim>\<open>[a-zA-Z0-9_-]\<close>, so nothing they return leaves this range.
\<close>

text \<open>The character class \<^verbatim>\<open>[a-zA-Z0-9_-]\<close> of the regular expressions.\<close>

definition nameChar :: "char \<Rightarrow> bool" where
  "nameChar c =
     (let n = (of_char c :: nat)
      in (97 \<le> n \<and> n \<le> 122) \<or> (65 \<le> n \<and> n \<le> 90) \<or> (48 \<le> n \<and> n \<le> 57)
         \<or> n = 95 \<or> n = 45)"

text \<open>
  \<^verbatim>\<open>String.prototype.toLowerCase\<close> on one code unit below 256: \<^verbatim>\<open>A-Z\<close> and the
  capital letters of Latin-1 (\<^verbatim>\<open>0xC0-0xDE\<close> without the multiplication sign
  \<^verbatim>\<open>0xD7\<close>) move up by 32, every other unit stays.
\<close>

definition upperUnit :: "nat \<Rightarrow> bool" where
  "upperUnit n = ((65 \<le> n \<and> n \<le> 90) \<or> (192 \<le> n \<and> n \<le> 222 \<and> n \<noteq> 215))"

definition lowerChar :: "char \<Rightarrow> char" where
  "lowerChar c = (if upperUnit (of_char c) then char_of ((of_char c :: nat) + 32) else c)"

definition toLowerCase :: "string \<Rightarrow> string" where
  "toLowerCase s = map lowerChar s"

subsection \<open>Sanitizers (\<^verbatim>\<open>src/chat/commands.ts\<close>)\<close>

text \<open>\<^verbatim>\<open>nick.replace(/[^a-zA-Z0-9_-]/g, '').slice(0, 32)\<close>\<close>

definition sanitizeNick :: "string \<Rightarrow> string" where
  "sanitizeNick nick = take 32 (filter nameChar nick)"

text \<open>\<^verbatim>\<open>room.replace(/[^a-zA-Z0-9_-]/g, '').slice(0, 32).toLowerCase()\<close>\<close>

definition sanitizeRoomName :: "string \<Rightarrow> string" where
  "sanitizeRoomName room = toLowerCase (take 32 (filter nameChar room))"

text \<open>
  \<^verbatim>\<open>String(n)\<close> and template interpolation of an integer: its decimal digits.
\<close>

fun showNat :: "nat \<Rightarrow> string" where
  "showNat n = (if n < 10 then [char_of (48 + n)] else showNat (n div 10) @ [char_of (48 + n mod 10)])"

declare showNat.simps [simp del]

definition showInt :: "int \<Rightarrow> string" where
  "showInt i = (if i < 0 then CHR ''-'' # showNat (nat (- i)) else showNat (nat i))"

text \<open>\<^verbatim>\<open>String.prototype.includes\<close>: the pattern occurs at some position.\<close>

fun includes_str :: "string \<Rightarrow> string \<Rightarrow> bool" where
  "includes_str [] p = (p = [])"
| "includes_str (c # s) p = (take (length p) (c # s) = p \<or> includes_str s p)"

text \<open>
  \<^verbatim>\<open>new TextEncoder().encode(content).length\<close>: a code unit below 128 is one byte of
  UTF-8, one from 128 to 255 is two.
\<close>

definition utf8Length :: "string \<Rightarrow> nat" where
  "utf8Length s = sum_list (map (\<lambda>c. if (of_char c :: nat) < 128 then 1 else 2) s)"

section \<open>Bounded buffer and rate limiter (\<^verbatim>\<open>src/utils/buffer.ts\<close>)\<close>

text \<open>
  Numbers of the configuration are read with \<^verbatim>\<open>parseInt\<close>; they are modelled as
  \<^typ>\<open>int\<close>. Times are the integer milliseconds of \<^verbatim>\<open>Date.now()\<close>.
\<close>

record 'a bounded_buffer =
  items :: "'a list"
  maxSize :: int

definition newBoundedBuffer :: "int \<Rightarrow> 'a bounded_buffer" where
  "newBoundedBuffer n = \<lparr>items = [], maxSize = n\<rparr>"

text \<open>
  \<^verbatim>\<open>push\<close>: append, then \<^verbatim>\<open>shift()\<close> the first item away when the length exceeds
  \<^verbatim>\<open>maxSize\<close>.
\<close>

definition push :: "'a \<Rightarrow> 'a bounded_buffer \<Rightarrow> 'a bounded_buffer" where
  "push item b =
     (let xs = items b @ [item]
      in if int (length xs) > maxSize b then b\<lparr>items := tl xs\<rparr> else b\<lparr>items := xs\<rparr>)"

definition getAll :: "'a bounded_buffer \<Rightarrow> 'a list" where
  "getAll b = items b"

text \<open>\<^verbatim>\<open>getLast(count)\<close>: \<^verbatim>\<open>items.slice(Math.max(0, items.length - count))\<close>.\<close>

definition getLast :: "int \<Rightarrow> 'a bounded_buffer \<Rightarrow> 'a list" where
  "getLast count b = drop (nat (max 0 (int (length (items b)) - count))) (items b)"

record rate_limiter =
  timestamps :: "int list"
  maxRequests :: int

text \<open>The constructor sets \<^verbatim>\<open>windowMs = 1000\<close>; nothing writes the field again.\<close>

definition windowMs :: int where
  "windowMs = 1000"

definition newRateLimiter :: "int \<Rightarrow> rate_limiter" where
  "newRateLimiter maxRequestsPerSecond = \<lparr>timestamps = [], maxRequests = maxRequestsPerSecond\<rparr>"

text \<open>
  \<^verbatim>\<open>canProceed()\<close> reads the clock (\<open>now\<close>), drops the timestamps outside the window
  from the limiter and compares the number of those left with \<^verbatim>\<open>maxRequests\<close>.
  It returns the answer and the limiter as it leaves it.
\<close>

definition canProceed :: "int \<Rightarrow> rate_limiter \<Rightarrow> bool \<times> rate_limiter" where
  "canProceed now rl =
     (let windowStart = now - windowMs;
          ts = filter (\<lambda>t. t > windowStart) (timestamps rl)
      in (int (length ts) < maxRequests rl, rl\<lparr>timestamps := ts\<rparr>))"

text \<open>
  \<^verbatim>\<open>record()\<close> reads the clock twice: \<open>now1\<close> inside \<^verbatim>\<open>canProceed()\<close>, and
  \<open>now2\<close> for the timestamp it pushes (read only when the call is admitted).
\<close>

definition record_limiter :: "int \<Rightarrow> int \<Rightarrow> rate_limiter \<Rightarrow> bool \<times> rate_limiter" where
  "record_limiter now1 now2 rl =
     (case canProceed now1 rl of
        (False, rl1) \<Rightarrow> (False, rl1)
      | (True, rl1) \<Rightarrow> (True, rl1\<lparr>timestamps := timestamps rl1 @ [now2]\<rparr>))"

definition reset :: "rate_limiter \<Rightarrow> rate_limiter" where
  "reset rl = rl\<lparr>timestamps := []\<rparr>"

text \<open>
  A run of \<^verbatim>\<open>record()\<close> calls, one per pair of clock readings: the answers in order and
  the limiter at the end.
\<close>

fun record_calls :: "(int \<times> int) list \<Rightarrow> rate_limiter \<Rightarrow> bool list \<times> rate_limiter" where
  "record_calls [] rl = ([], rl)"
| "record_calls ((now1, now2) # cs) rl =
     (case record_limiter now1 now2 rl of
        (ok, rl1) \<Rightarrow> (case record_calls cs rl1 of (oks, rl2) \<Rightarrow> (ok # oks, rl2)))"

section \<open>Messages (\<^verbatim>\<open>src/chat/message.ts\<close>)\<close>

datatype message_type = Text | Join | Leave | Nick | Action

record chat_message =
  m_id :: string
  m_timestamp :: int
  m_room :: string
  m_nick :: string
  m_fingerprint :: string
  m_type :: message_type
  m_content :: string
  m_oldNick :: "string option"

text \<open>
  \<^verbatim>\<open>isMessageSizeValid\<close> compares the UTF-8 length of the content with the limit.
  \<^verbatim>\<open>encodeMessage\<close> and \<^verbatim>\<open>decodeMessage\<close> are modelled in the section on the wire
  format; the publish log below keeps the message whose encoding is the payload.
\<close>

definition isMessageSizeValid :: "string \<Rightarrow> int \<Rightarrow> bool" where
  "isMessageSizeValid content maxSize' = (int (utf8Length content) \<le> maxSize')"

section \<open>The world: Directory, sessions, overlay, callbacks\<close>

text \<open>
  The Directory (\<^verbatim>\<open>ChatState\<close>) is one object shared by every session, and the
  listeners it holds are closures over sessions. So the operations run on a world that
  holds the Directory, the sessions, the overlay's topics and a log of what reached the
  outside: the callbacks invoked (the terminal UI) and the publish calls made.
  \<^verbatim>\<open>await\<close> is modelled as sequential execution: an operation runs to its end.
\<close>

record user_info =
  u_sessionId :: string
  u_nick :: string
  u_fingerprint :: string
  u_room :: string
  u_joinedAt :: int

datatype event_name = EvMessage | EvUserJoin | EvUserLeave | EvUserNick | EvUserRoom

text \<open>An emitted event with its arguments.\<close>

datatype chat_event =
  EMessage chat_message
| EUserJoin user_info
| EUserLeave user_info
| EUserNick user_info string
| EUserRoom user_info string

fun eventName :: "chat_event \<Rightarrow> event_name" where
  "eventName (EMessage m) = EvMessage"
| "eventName (EUserJoin u) = EvUserJoin"
| "eventName (EUserLeave u) = EvUserLeave"
| "eventName (EUserNick u old) = EvUserNick"
| "eventName (EUserRoom u old) = EvUserRoom"

text \<open>
  \<^verbatim>\<open>ChatState\<close>. The two \<^verbatim>\<open>Map\<close>s are association lists in insertion order
  (\<^verbatim>\<open>set\<close> on a present key keeps its place: \<^const>\<open>AList.update\<close>). A listener of the
  inherited \<^verbatim>\<open>EventEmitter\<close> is kept as the event it is registered for and the id of
  the session whose \<^verbatim>\<open>setupStateListeners\<close> made the closure.
\<close>

record chat_state =
  users :: "(string \<times> user_info) list"
  roomMessages :: "(string \<times> chat_message bounded_buffer) list"
  maxMessagesPerRoom :: int
  listeners :: "(event_name \<times> string) list"

definition newChatState :: "int \<Rightarrow> chat_state" where
  "newChatState n = \<lparr>users = [], roomMessages = [], maxMessagesPerRoom = n, listeners = []\<rparr>"

record config =
  defaultRoom :: string
  maxMessageSize :: int
  rateLimit :: int
  maxNickLength :: int
  maxRoomNameLength :: int

text \<open>
  \<^verbatim>\<open>UserSession\<close>; its \<^verbatim>\<open>id\<close> is the key under which the world holds it.
  \<open>s_subscriptions\<close> are the keys of its \<^verbatim>\<open>ChatPubSub.subscriptions\<close>: the handler
  stored with each is always this session's \<^verbatim>\<open>handlePubsubMessage\<close>.
\<close>

record user_session =
  s_config :: config
  s_fingerprint :: string
  s_nick :: string
  s_room :: string
  s_isConnected :: bool
  s_rateLimiter :: rate_limiter
  s_subscriptions :: "string list"

text \<open>The callbacks of \<^verbatim>\<open>SessionCallbacks\<close>, as the events the UI receives.\<close>

datatype ui_event =
  OnMessage chat_message
| OnSystemMessage string
| OnUserListUpdate "user_info list"
| OnRoomChange string
| OnDisconnect
| OnClearMessages

record world =
  chatState :: chat_state
  sessions :: "(string \<times> user_session) list"
  callbacks :: "(string \<times> ui_event) list"
  published :: "(string \<times> chat_message) list"
  topics :: "string list"
  clock :: nat
  uuids :: nat

text \<open>
  What a value thrown by the overlay looks like to \<^verbatim>\<open>ChatPubSub.sendMessage\<close>: an
  \<^verbatim>\<open>Error\<close> with its \<^verbatim>\<open>message\<close>, or any other value with its \<^verbatim>\<open>String(err)\<close>.
\<close>

datatype thrown = Error string | Thrown string

fun errorMessage :: "thrown \<Rightarrow> string" where
  "errorMessage (Error msg) = msg"
| "errorMessage (Thrown str) = str"

datatype publish_result = Published | PublishThrows thrown

text \<open>
  The environment: the \<open>n\<close>-th reading of \<^verbatim>\<open>Date.now()\<close>, the \<open>n\<close>-th
  \<^verbatim>\<open>uuidv4()\<close>, and what the overlay answers to the \<open>n\<close>-th \<^verbatim>\<open>publish\<close> call.
\<close>

record env =
  now :: "nat \<Rightarrow> int"
  uuidv4 :: "nat \<Rightarrow> string"
  publish :: "nat \<Rightarrow> publish_result"

definition newWorld :: "int \<Rightarrow> world" where
  "newWorld n =
     \<lparr>chatState = newChatState n, sessions = [], callbacks = [], published = [], topics = [],
      clock = 0, uuids = 0\<rparr>"

definition dateNow :: "env \<Rightarrow> world \<Rightarrow> int \<times> world" where
  "dateNow E w = (now E (clock w), w\<lparr>clock := Suc (clock w)\<rparr>)"

definition newUuid :: "env \<Rightarrow> world \<Rightarrow> string \<times> world" where
  "newUuid E w = (uuidv4 E (uuids w), w\<lparr>uuids := Suc (uuids w)\<rparr>)"

definition getSession :: "world \<Rightarrow> string \<Rightarrow> user_session option" where
  "getSession w sid = map_of (sessions w) sid"

definition modifySession :: "string \<Rightarrow> (user_session \<Rightarrow> user_session) \<Rightarrow> world \<Rightarrow> world" where
  "modifySession sid f w =
     (case map_of (sessions w) sid of
        None \<Rightarrow> w
      | Some s \<Rightarrow> w\<lparr>sessions := AList.update sid (f s) (sessions w)\<rparr>)"

definition callback :: "string \<Rightarrow> ui_event \<Rightarrow> world \<Rightarrow> world" where
  "callback sid ev w = w\<lparr>callbacks := callbacks w @ [(sid, ev)]\<rparr>"

definition showSystemMessage :: "string \<Rightarrow> string \<Rightarrow> world \<Rightarrow> world" where
  "showSystemMessage sid msg w = callback sid (OnSystemMessage msg) w"


subsection \<open>Message constructors\<close>

text \<open>\<^verbatim>\<open>createMessage\<close> draws \<^verbatim>\<open>uuidv4()\<close>, then reads \<^verbatim>\<open>Date.now()\<close>.\<close>

definition createMessage ::
  "env \<Rightarrow> message_type \<Rightarrow> string \<Rightarrow> string \<Rightarrow> string \<Rightarrow> string \<Rightarrow> string option \<Rightarrow> world
   \<Rightarrow> chat_message \<times> world" where
  "createMessage E ty room nick fp content oldNick w =
     (let (i, w1) = newUuid E w;
          (t, w2) = dateNow E w1
      in (\<lparr>m_id = i, m_timestamp = t, m_room = room, m_nick = nick, m_fingerprint = fp,
           m_type = ty, m_content = content, m_oldNick = oldNick\<rparr>, w2))"

definition createTextMessage ::
  "env \<Rightarrow> string \<Rightarrow> string \<Rightarrow> string \<Rightarrow> string \<Rightarrow> world \<Rightarrow> chat_message \<times> world" where
  "createTextMessage E room nick fp content w = createMessage E Text room nick fp content None w"

definition createJoinMessage ::
  "env \<Rightarrow> string \<Rightarrow> string \<Rightarrow> string \<Rightarrow> world \<Rightarrow> chat_message \<times> world" where
  "createJoinMessage E room nick fp w =
     createMessage E Join room nick fp (nick @ '' has joined the room'') None w"

definition createLeaveMessage ::
  "env \<Rightarrow> string \<Rightarrow> string \<Rightarrow> string \<Rightarrow> world \<Rightarrow> chat_message \<times> world" where
  "createLeaveMessage E room nick fp w =
     createMessage E Leave room nick fp (nick @ '' has left the room'') None w"

definition createNickChangeMessage ::
  "env \<Rightarrow> string \<Rightarrow> string \<Rightarrow> string \<Rightarrow> string \<Rightarrow> world \<Rightarrow> chat_message \<times> world" where
  "createNickChangeMessage E room oldNick newNick fp w =
     createMessage E Nick room newNick fp (oldNick @ '' is now known as '' @ newNick)
       (Some oldNick) w"


subsection \<open>Directory: reads (\<^verbatim>\<open>src/chat/state.ts\<close>)\<close>

definition getUser :: "chat_state \<Rightarrow> string \<Rightarrow> user_info option" where
  "getUser cs sid = map_of (users cs) sid"

definition getUserByFingerprint :: "chat_state \<Rightarrow> string \<Rightarrow> user_info option" where
  "getUserByFingerprint cs fp = find (\<lambda>u. u_fingerprint u = fp) (map snd (users cs))"

definition getUsersInRoom :: "chat_state \<Rightarrow> string \<Rightarrow> user_info list" where
  "getUsersInRoom cs room = filter (\<lambda>u. u_room u = room) (map snd (users cs))"


definition getUserCount :: "chat_state \<Rightarrow> nat" where
  "getUserCount cs = length (users cs)"

text \<open>
  \<^verbatim>\<open>count ? buffer.getLast(count) : buffer.getAll()\<close>: an absent count and the count
  \<open>0\<close> both take the whole buffer.
\<close>

definition getRecentMessages :: "chat_state \<Rightarrow> string \<Rightarrow> int option \<Rightarrow> chat_message list" where
  "getRecentMessages cs room count =
     (case map_of (roomMessages cs) room of
        None \<Rightarrow> []
      | Some buffer \<Rightarrow>
          (case count of
             None \<Rightarrow> getAll buffer
           | Some c \<Rightarrow> if c \<noteq> 0 then getLast c buffer else getAll buffer))"

text \<open>
  \<^verbatim>\<open>isNickTaken\<close>: the first user of the room with the same lower-cased nick decides,
  unless the guard \<^verbatim>\<open>excludeSessionId && user.sessionId === excludeSessionId\<close> skips it;
  an absent or empty \<^verbatim>\<open>excludeSessionId\<close> is falsy and skips nobody.
\<close>

fun nickTakenIn :: "user_info list \<Rightarrow> string \<Rightarrow> string \<Rightarrow> string option \<Rightarrow> bool" where
  "nickTakenIn [] nick room excludeSessionId = False"
| "nickTakenIn (user # rest) nick room excludeSessionId =
     (if u_room user = room \<and> toLowerCase (u_nick user) = toLowerCase nick
      then (if (case excludeSessionId of
                  None \<Rightarrow> False
                | Some e \<Rightarrow> e \<noteq> [] \<and> u_sessionId user = e)
            then nickTakenIn rest nick room excludeSessionId
            else True)
      else nickTakenIn rest nick room excludeSessionId)"

definition isNickTaken :: "chat_state \<Rightarrow> string \<Rightarrow> string \<Rightarrow> string option \<Rightarrow> bool" where
  "isNickTaken cs nick room excludeSessionId =
     nickTakenIn (map snd (users cs)) nick room excludeSessionId"

subsection \<open>Directory: events\<close>

definition updateUserList :: "string \<Rightarrow> world \<Rightarrow> world" where
  "updateUserList sid w =
     (case getSession w sid of
        None \<Rightarrow> w
      | Some s \<Rightarrow> callback sid (OnUserListUpdate (getUsersInRoom (chatState w) (s_room s))) w)"

text \<open>
  The five closures of \<^verbatim>\<open>setupStateListeners\<close> of session \<open>sid\<close>, by the event each
  is registered for. They read the session's fields when the event arrives.
\<close>

definition stateListener :: "string \<Rightarrow> chat_event \<Rightarrow> world \<Rightarrow> world" where
  "stateListener sid e w =
     (case getSession w sid of
        None \<Rightarrow> w
      | Some s \<Rightarrow>
          (case e of
             EMessage message \<Rightarrow>
               if m_room message = s_room s \<and> m_fingerprint message \<noteq> s_fingerprint s
               then callback sid (OnMessage message) w else w
           | EUserJoin user \<Rightarrow>
               if u_room user = s_room s \<and> u_sessionId user \<noteq> sid
               then updateUserList sid w else w
           | EUserLeave user \<Rightarrow>
               if u_room user = s_room s then updateUserList sid w else w
           | EUserNick user oldNick \<Rightarrow> updateUserList sid w
           | EUserRoom user oldRoom \<Rightarrow> updateUserList sid w))"

text \<open>\<^verbatim>\<open>emit\<close> calls the listeners registered for the event, in registration order.\<close>

definition emit :: "chat_event \<Rightarrow> world \<Rightarrow> world" where
  "emit e w =
     foldl (\<lambda>w' sid. stateListener sid e w') w
       (map snd (filter (\<lambda>l. fst l = eventName e) (listeners (chatState w))))"

definition setupStateListeners :: "string \<Rightarrow> world \<Rightarrow> world" where
  "setupStateListeners sid w =
     w\<lparr>chatState := (chatState w)\<lparr>listeners := listeners (chatState w) @
        [(EvMessage, sid), (EvUserJoin, sid), (EvUserLeave, sid), (EvUserNick, sid),
         (EvUserRoom, sid)]\<rparr>\<rparr>"

text \<open>
  \<^verbatim>\<open>this.chatState.removeAllListeners()\<close>: \<^verbatim>\<open>EventEmitter.removeAllListeners\<close> without
  an event name removes every listener of every event of the emitter.
\<close>

definition removeAllListeners :: "world \<Rightarrow> world" where
  "removeAllListeners w = w\<lparr>chatState := (chatState w)\<lparr>listeners := []\<rparr>\<rparr>"

subsection \<open>Directory: updates\<close>

definition addUser ::
  "env \<Rightarrow> string \<Rightarrow> string \<Rightarrow> string \<Rightarrow> string \<Rightarrow> world \<Rightarrow> user_info \<times> world" where
  "addUser E sessionId nick fp room w =
     (let (t, w1) = dateNow E w;
          user = \<lparr>u_sessionId = sessionId, u_nick = nick, u_fingerprint = fp, u_room = room,
                  u_joinedAt = t\<rparr>;
          cs = chatState w1;
          w2 = w1\<lparr>chatState := cs\<lparr>users := AList.update sessionId user (users cs)\<rparr>\<rparr>
      in (user, emit (EUserJoin user) w2))"

definition removeUser :: "string \<Rightarrow> world \<Rightarrow> user_info option \<times> world" where
  "removeUser sessionId w =
     (let cs = chatState w
      in case map_of (users cs) sessionId of
           None \<Rightarrow> (None, w)
         | Some user \<Rightarrow>
             (Some user,
              emit (EUserLeave user)
                (w\<lparr>chatState := cs\<lparr>users := AList.delete sessionId (users cs)\<rparr>\<rparr>)))"

definition setNick :: "string \<Rightarrow> string \<Rightarrow> world \<Rightarrow> bool \<times> world" where
  "setNick sessionId newNick w =
     (let cs = chatState w
      in case map_of (users cs) sessionId of
           None \<Rightarrow> (False, w)
         | Some user \<Rightarrow>
             (let oldNick = u_nick user;
                  user' = user\<lparr>u_nick := newNick\<rparr>
              in (True,
                  emit (EUserNick user' oldNick)
                    (w\<lparr>chatState := cs\<lparr>users := AList.update sessionId user' (users cs)\<rparr>\<rparr>))))"

definition setRoom :: "string \<Rightarrow> string \<Rightarrow> world \<Rightarrow> bool \<times> world" where
  "setRoom sessionId newRoom w =
     (let cs = chatState w
      in case map_of (users cs) sessionId of
           None \<Rightarrow> (False, w)
         | Some user \<Rightarrow>
             (let oldRoom = u_room user;
                  user' = user\<lparr>u_room := newRoom\<rparr>
              in (True,
                  emit (EUserRoom user' oldRoom)
                    (w\<lparr>chatState := cs\<lparr>users := AList.update sessionId user' (users cs)\<rparr>\<rparr>))))"

text \<open>
  \<^verbatim>\<open>addMessage\<close>: the room's buffer, made with \<^verbatim>\<open>maxMessagesPerRoom\<close> when the room
  has none yet, takes the message; then \<^verbatim>\<open>message\<close> is emitted.
\<close>

definition addMessage :: "chat_message \<Rightarrow> world \<Rightarrow> world" where
  "addMessage message w =
     (let cs = chatState w;
          buffer = (case map_of (roomMessages cs) (m_room message) of
                      None \<Rightarrow> newBoundedBuffer (maxMessagesPerRoom cs)
                    | Some b \<Rightarrow> b);
          cs' = cs\<lparr>roomMessages :=
                  AList.update (m_room message) (push message buffer) (roomMessages cs)\<rparr>
      in emit (EMessage message) (w\<lparr>chatState := cs'\<rparr>))"

section \<open>Room router (\<^verbatim>\<open>src/network/pubsub.ts\<close>)\<close>

definition TOPIC_PREFIX :: string where
  "TOPIC_PREFIX = ''/whisper/room/''"

definition getTopic :: "string \<Rightarrow> string" where
  "getTopic roomName = TOPIC_PREFIX @ roomName"

text \<open>
  \<^verbatim>\<open>ChatPubSub.sendMessage\<close>. The call of the overlay's \<^verbatim>\<open>publish\<close> is logged with its
  topic and the message whose encoding is the payload; the environment says whether it
  throws. A thrown value whose message includes \<^verbatim>\<open>NoPeersSubscribedToTopic\<close> is
  swallowed, any other is thrown again (\<open>Inl\<close>).
\<close>

definition ChatPubSub_sendMessage ::
  "env \<Rightarrow> string \<Rightarrow> chat_message \<Rightarrow> world \<Rightarrow> (thrown + unit) \<times> world" where
  "ChatPubSub_sendMessage E roomName message w =
     (let topic = getTopic roomName;
          w1 = w\<lparr>published := published w @ [(topic, message)]\<rparr>
      in case publish E (length (published w)) of
           Published \<Rightarrow> (Inr (), w1)
         | PublishThrows err \<Rightarrow>
             if includes_str (errorMessage err) ''NoPeersSubscribedToTopic''
             then (Inr (), w1)
             else (Inl err, w1))"

text \<open>
  The router of session \<open>sid\<close>: its \<^verbatim>\<open>subscriptions\<close> are the session's own, the
  overlay's subscribed topics are shared by the process. Of the inbound path only the
  session's handler \<open>handlePubsubMessage\<close> is modelled, not the overlay's delivery.
\<close>

definition ChatPubSub_joinRoom :: "string \<Rightarrow> string \<Rightarrow> world \<Rightarrow> world" where
  "ChatPubSub_joinRoom sid roomName w =
     (case getSession w sid of
        None \<Rightarrow> w
      | Some s \<Rightarrow>
          if roomName \<in> set (s_subscriptions s) then w
          else (modifySession sid (\<lambda>s. s\<lparr>s_subscriptions := s_subscriptions s @ [roomName]\<rparr>) w)
                 \<lparr>topics := List.insert (getTopic roomName) (topics w)\<rparr>)"

definition ChatPubSub_leaveRoom :: "string \<Rightarrow> string \<Rightarrow> world \<Rightarrow> world" where
  "ChatPubSub_leaveRoom sid roomName w =
     (modifySession sid (\<lambda>s. s\<lparr>s_subscriptions := removeAll roomName (s_subscriptions s)\<rparr>) w)
       \<lparr>topics := removeAll (getTopic roomName) (topics w)\<rparr>"

definition ChatPubSub_destroy :: "string \<Rightarrow> world \<Rightarrow> world" where
  "ChatPubSub_destroy sid w =
     (case getSession w sid of
        None \<Rightarrow> w
      | Some s \<Rightarrow>
          (modifySession sid (\<lambda>s. s\<lparr>s_subscriptions := []\<rparr>) w)
            \<lparr>topics := filter (\<lambda>t. t \<notin> set (map getTopic (s_subscriptions s))) (topics w)\<rparr>)"

section \<open>Session (\<^verbatim>\<open>src/chat/session.ts\<close>)\<close>

text \<open>
  The constructor. The fingerprint is taken as given (the digest of the public key is
  not modelled). A method called for an id the world holds no session for leaves the
  world as it is: there is no object to call it on.
\<close>

definition newUserSession :: "env \<Rightarrow> string \<Rightarrow> config \<Rightarrow> world \<Rightarrow> string \<times> world" where
  "newUserSession E fp cfg w =
     (let (sid, w1) = newUuid E w;
          s = \<lparr>s_config = cfg, s_fingerprint = fp, s_nick = ''anon_'' @ take 6 fp,
               s_room = defaultRoom cfg, s_isConnected = False,
               s_rateLimiter = newRateLimiter (rateLimit cfg), s_subscriptions = []\<rparr>
      in (sid, w1\<lparr>sessions := AList.update sid s (sessions w1)\<rparr>))"

text \<open>
  \<^verbatim>\<open>this.rateLimiter.record()\<close> on the world's clock: one reading when the call is
  refused, two when it is admitted.
\<close>

definition rateLimiter_record :: "env \<Rightarrow> string \<Rightarrow> world \<Rightarrow> bool \<times> world" where
  "rateLimiter_record E sid w =
     (case getSession w sid of
        None \<Rightarrow> (False, w)
      | Some s \<Rightarrow>
          (case record_limiter (now E (clock w)) (now E (Suc (clock w))) (s_rateLimiter s) of
             (ok, rl) \<Rightarrow>
               (ok, (modifySession sid (\<lambda>s. s\<lparr>s_rateLimiter := rl\<rparr>) w)
                      \<lparr>clock := clock w + (if ok then 2 else 1)\<rparr>)))"

definition handlePubsubMessage :: "string \<Rightarrow> chat_message \<Rightarrow> world \<Rightarrow> world" where
  "handlePubsubMessage sid message w =
     (case getSession w sid of
        None \<Rightarrow> w
      | Some s \<Rightarrow>
          if m_fingerprint message = s_fingerprint s then w
          else callback sid (OnMessage message) (addMessage message w))"

definition sendMessage :: "env \<Rightarrow> string \<Rightarrow> string \<Rightarrow> world \<Rightarrow> world" where
  "sendMessage E sid content w =
     (case getSession w sid of
        None \<Rightarrow> w
      | Some s \<Rightarrow>
          if \<not> s_isConnected s then showSystemMessage sid ''Not connected'' w
          else
            (let (ok, w1) = rateLimiter_record E sid w
             in if \<not> ok then showSystemMessage sid ''Rate limit exceeded. Please slow down.'' w1
                else if \<not> isMessageSizeValid content (maxMessageSize (s_config s))
                then showSystemMessage sid
                       (''Message too long (max '' @ showInt (maxMessageSize (s_config s))
                          @ '' bytes)'') w1
                else
                  (let (message, w2) =
                         createTextMessage E (s_room s) (s_nick s) (s_fingerprint s) content w1;
                       (r, w3) = ChatPubSub_sendMessage E (s_room s) message w2
                   in case r of
                        Inr u \<Rightarrow> addMessage message (callback sid (OnMessage message) w3)
                      | Inl err \<Rightarrow> showSystemMessage sid ''Failed to send message'' w3)))"


text \<open>\<^verbatim>\<open>changeNick\<close> has no test of \<^verbatim>\<open>_isConnected\<close>.\<close>

definition changeNick :: "env \<Rightarrow> string \<Rightarrow> string \<Rightarrow> world \<Rightarrow> world" where
  "changeNick E sid newNick w =
     (case getSession w sid of
        None \<Rightarrow> w
      | Some s \<Rightarrow>
          if newNick = s_nick s then showSystemMessage sid ''That is already your nickname'' w
          else if isNickTaken (chatState w) newNick (s_room s) (Some sid)
          then showSystemMessage sid
                 (''Nickname \"'' @ newNick @ ''\" is already taken in this room'') w
          else
            (let oldNick = s_nick s;
                 w1 = modifySession sid (\<lambda>s. s\<lparr>s_nick := newNick\<rparr>) w;
                 w2 = snd (setNick sid newNick w1);
                 (message, w3) =
                   createNickChangeMessage E (s_room s) oldNick newNick (s_fingerprint s) w2;
                 (r, w4) = ChatPubSub_sendMessage E (s_room s) message w3;
                 w5 = (case r of Inr u \<Rightarrow> addMessage message w4 | Inl err \<Rightarrow> w4)
             in showSystemMessage sid (''You are now known as '' @ newNick) w5))"

text \<open>
  \<^verbatim>\<open>joinRoom\<close> tests \<^verbatim>\<open>_isConnected\<close> only to decide whether there is an old room to
  leave: \<^verbatim>\<open>start()\<close> calls it before the session is connected.
\<close>

definition joinRoom :: "env \<Rightarrow> string \<Rightarrow> string \<Rightarrow> world \<Rightarrow> world" where
  "joinRoom E sid newRoom w =
     (case getSession w sid of
        None \<Rightarrow> w
      | Some s \<Rightarrow>
          if newRoom = s_room s \<and> s_isConnected s
          then showSystemMessage sid (''You are already in room: '' @ newRoom) w
          else
            (let oldRoom = s_room s;
                 nick = s_nick s;
                 fp = s_fingerprint s;
                 w1 = (if s_isConnected s \<and> oldRoom \<noteq> []
                       then (let (leaveMessage, wa) = createLeaveMessage E oldRoom nick fp w;
                                 (r, wb) = ChatPubSub_sendMessage E oldRoom leaveMessage wa
                             in ChatPubSub_leaveRoom sid oldRoom wb)
                       else w);
                 w2 = modifySession sid (\<lambda>s. s\<lparr>s_room := newRoom\<rparr>) w1;
                 w3 = snd (setRoom sid newRoom w2);
                 w4 = ChatPubSub_joinRoom sid newRoom w3;
                 (joinMessage, w5) = createJoinMessage E newRoom nick fp w4;
                 (r, w6) = ChatPubSub_sendMessage E newRoom joinMessage w5;
                 w7 = (case r of Inr u \<Rightarrow> addMessage joinMessage w6 | Inl err \<Rightarrow> w6);
                 w8 = callback sid (OnRoomChange newRoom) w7;
                 w9 = updateUserList sid w8;
                 w10 = showSystemMessage sid (''Joined room: '' @ newRoom) w9;
                 recentMessages = getRecentMessages (chatState w10) newRoom (Some 20)
             in if length recentMessages > 0
                then showSystemMessage sid ''--- End of history ---''
                       (foldl (\<lambda>w' msg. if m_fingerprint msg \<noteq> fp
                                          then callback sid (OnMessage msg) w' else w')
                          (showSystemMessage sid ''--- Recent messages ---'' w10)
                          recentMessages)
                else w10))"




definition disconnect :: "env \<Rightarrow> string \<Rightarrow> world \<Rightarrow> world" where
  "disconnect E sid w =
     (case getSession w sid of
        None \<Rightarrow> w
      | Some s \<Rightarrow>
          if \<not> s_isConnected s then w
          else
            (let (leaveMessage, w1) =
                   createLeaveMessage E (s_room s) (s_nick s) (s_fingerprint s) w;
                 (r, w2) = ChatPubSub_sendMessage E (s_room s) leaveMessage w1;
                 w3 = ChatPubSub_leaveRoom sid (s_room s) w2;
                 w4 = ChatPubSub_destroy sid w3;
                 w5 = snd (removeUser sid w4);
                 w6 = modifySession sid (\<lambda>s. s\<lparr>s_isConnected := False\<rparr>) w5
             in callback sid OnDisconnect w6))"

text \<open>\<^verbatim>\<open>destroy\<close>: \<^verbatim>\<open>disconnect()\<close>, then \<^verbatim>\<open>this.removeAllListeners()\<close>.\<close>

definition destroy :: "env \<Rightarrow> string \<Rightarrow> world \<Rightarrow> world" where
  "destroy E sid w = removeAllListeners (disconnect E sid w)"

definition start :: "env \<Rightarrow> string \<Rightarrow> world \<Rightarrow> world" where
  "start E sid w =
     (case getSession w sid of
        None \<Rightarrow> w
      | Some s \<Rightarrow>
          (let w1 = snd (addUser E sid (s_nick s) (s_fingerprint s) (s_room s) w);
               w2 = setupStateListeners sid w1;
               w3 = joinRoom E sid (s_room s) w2;
               w4 = modifySession sid (\<lambda>s. s\<lparr>s_isConnected := True\<rparr>) w3;
               w5 = showSystemMessage sid
                      (''Welcome to Whisper! You are '' @ s_nick s @ '' ['' @ s_fingerprint s
                         @ '']'') w4;
               w6 = showSystemMessage sid (''You are in room: '' @ s_room s) w5
           in showSystemMessage sid ''Type /help for available commands.'' w6))"

section \<open>Command processor (\<^verbatim>\<open>src/chat/commands.ts\<close>)\<close>






record command =
  c_name :: string
  c_aliases :: "string list"
  c_description :: string
  c_usage :: string

definition commands :: "command list" where
  "commands =
     [\<lparr>c_name = ''nick'', c_aliases = [''n''], c_description = ''Change your nickname'',
       c_usage = ''/nick <new_name>''\<rparr>,
      \<lparr>c_name = ''join'', c_aliases = [''j''], c_description = ''Join a room'',
       c_usage = ''/join <room_name>''\<rparr>,
      \<lparr>c_name = ''users'', c_aliases = [''who'', ''w''],
       c_description = ''List users in the current room'', c_usage = ''/users''\<rparr>,
      \<lparr>c_name = ''rooms'', c_aliases = [''r''], c_description = ''List known rooms'',
       c_usage = ''/rooms''\<rparr>,
      \<lparr>c_name = ''help'', c_aliases = [''h'', ''?''],
       c_description = ''Show available commands'', c_usage = ''/help''\<rparr>,
      \<lparr>c_name = ''quit'', c_aliases = [''q'', ''exit''],
       c_description = ''Disconnect from chat'', c_usage = ''/quit''\<rparr>,
      \<lparr>c_name = ''me'', c_aliases = [], c_description = ''Send an action message'',
       c_usage = ''/me <action>''\<rparr>,
      \<lparr>c_name = ''clear'', c_aliases = [''cls''], c_description = ''Clear the screen'',
       c_usage = ''/clear''\<rparr>]"


definition nickCommand :: "env \<Rightarrow> string \<Rightarrow> string list \<Rightarrow> world \<Rightarrow> world" where
  "nickCommand E sid args w =
     (case getSession w sid of
        None \<Rightarrow> w
      | Some s \<Rightarrow>
          (case args of
             [] \<Rightarrow> showSystemMessage sid ''Usage: /nick <new_name>'' w
           | a # rest \<Rightarrow>
               (let newNick = sanitizeNick a
                in if newNick = []
                   then showSystemMessage sid
                          ''Invalid nickname. Use alphanumeric characters, underscores, and dashes only.''
                          w
                   else if int (length newNick) > maxNickLength (s_config s)
                   then showSystemMessage sid
                          (''Nickname too long (max '' @ showInt (maxNickLength (s_config s))
                             @ '' characters)'') w
                   else changeNick E sid newNick w)))"








section \<open>Wire format (\<^verbatim>\<open>src/chat/message.ts\<close>)\<close>

text \<open>
  \<^verbatim>\<open>encodeMessage\<close> is \<^verbatim>\<open>new TextEncoder().encode(JSON.stringify(message))\<close> and
  \<^verbatim>\<open>decodeMessage\<close> is \<^verbatim>\<open>JSON.parse(new TextDecoder().decode(data))\<close>. The four
  built-ins are transcribed from their standards (ECMA-262 \<^verbatim>\<open>JSON.stringify\<close>,
  \<^verbatim>\<open>QuoteJSONString\<close> and \<^verbatim>\<open>JSON.parse\<close>; the UTF-8 encoder and decoder of the WHATWG
  Encoding standard) on the part of their domain a message needs: strings of code units
  below 256, integers up to \<open>2 ^ 53\<close> in absolute value, and objects whose values are
  scalars. Outside that part a function answers \<open>Unmodelled\<close> (or \<open>None\<close> for the
  decoder), which says nothing about the runtime; \<open>SyntaxError\<close> is the exception
  \<^verbatim>\<open>JSON.parse\<close> throws.
\<close>
text \<open>
  A parsed value. The properties of an object are kept in the order of their first
  occurrence in the text, the order an object keeps for keys that are not array indices.
\<close>

datatype js_value =
  JNull
| JBool bool
| JNumber int
| JString string
| JObject "(string \<times> js_value) list"

datatype parse_error = SyntaxError | Unmodelled

text \<open>
  \<^verbatim>\<open>QuoteJSONString\<close>: the quotation mark, the backslash and the control characters are
  escaped, the others copied.
\<close>

definition hexDigit :: "nat \<Rightarrow> char" where
  "hexDigit d = (if d < 10 then char_of (48 + d) else char_of (87 + d))"

definition hexValue :: "char \<Rightarrow> nat option" where
  "hexValue c =
     (let n = (of_char c :: nat)
      in if 48 \<le> n \<and> n \<le> 57 then Some (n - 48)
         else if 97 \<le> n \<and> n \<le> 102 then Some (n - 87)
         else if 65 \<le> n \<and> n \<le> 70 then Some (n - 55)
         else None)"

definition escapeChar :: "char \<Rightarrow> string" where
  "escapeChar c =
     (let n = (of_char c :: nat)
      in if n = 8 then [CHR 0x5C, CHR ''b'']
         else if n = 9 then [CHR 0x5C, CHR ''t'']
         else if n = 10 then [CHR 0x5C, CHR ''n'']
         else if n = 12 then [CHR 0x5C, CHR ''f'']
         else if n = 13 then [CHR 0x5C, CHR ''r'']
         else if n = 34 then [CHR 0x5C, CHR 0x22]
         else if n = 92 then [CHR 0x5C, CHR 0x5C]
         else if n < 32 then [CHR 0x5C, CHR ''u'', CHR ''0'', CHR ''0'', hexDigit (n div 16), hexDigit (n mod 16)]
         else [c])"

definition quoteJSONString :: "string \<Rightarrow> string" where
  "quoteJSONString s = CHR 0x22 # concat (map escapeChar s) @ [CHR 0x22]"

text \<open>
  The body of a string literal of JSON, after its opening quotation mark: the string and
  the text after the closing mark. An unescaped control character, an unknown escape and
  a missing closing mark are syntax errors.
\<close>

definition unescape :: "char \<Rightarrow> char option" where
  "unescape e =
     (if e = CHR 0x22 then Some (CHR 0x22)
      else if e = CHR 0x5C then Some (CHR 0x5C)
      else if e = CHR ''/'' then Some (CHR ''/'')
      else if e = CHR ''b'' then Some (CHR 0x08)
      else if e = CHR ''f'' then Some (CHR 0x0C)
      else if e = CHR ''n'' then Some (CHR 0x0A)
      else if e = CHR ''r'' then Some (CHR 0x0D)
      else if e = CHR ''t'' then Some (CHR 0x09)
      else None)"

definition consChar ::
  "char \<Rightarrow> parse_error + (string \<times> string) \<Rightarrow> parse_error + (string \<times> string)" where
  "consChar c r = (case r of Inl e \<Rightarrow> Inl e | Inr (str, rest) \<Rightarrow> Inr (c # str, rest))"

definition hex4 :: "char \<Rightarrow> char \<Rightarrow> char \<Rightarrow> char \<Rightarrow> nat option" where
  "hex4 h1 h2 h3 h4 =
     (case (hexValue h1, hexValue h2, hexValue h3, hexValue h4) of
        (Some a, Some b, Some c, Some d) \<Rightarrow> Some (4096 * a + 256 * b + 16 * c + d)
      | _ \<Rightarrow> None)"

fun parseChars :: "string \<Rightarrow> parse_error + (string \<times> string)" where
  "parseChars [] = Inl SyntaxError"
| "parseChars (c # s) =
     (if c = CHR 0x22 then Inr ([], s)
      else if c = CHR 0x5C then
        (case s of
           [] \<Rightarrow> Inl SyntaxError
         | e # r \<Rightarrow>
             if e = CHR ''u'' then
               (case r of
                  h1 # h2 # h3 # h4 # r' \<Rightarrow>
                    (case hex4 h1 h2 h3 h4 of
                       None \<Rightarrow> Inl SyntaxError
                     | Some u \<Rightarrow>
                         if u < 256 then consChar (char_of u) (parseChars r')
                         else Inl Unmodelled)
                | _ \<Rightarrow> Inl SyntaxError)
             else
               (case unescape e of
                  None \<Rightarrow> Inl SyntaxError
                | Some x \<Rightarrow> consChar x (parseChars r)))
      else if (of_char c :: nat) < 32 then Inl SyntaxError
      else consChar c (parseChars s))"

text \<open>
  A number of JSON: an optional minus sign, then \<^verbatim>\<open>0\<close> or a digit from 1 to 9 followed by
  digits. A fraction, an exponent, an integer above \<open>2 ^ 53\<close> and \<^verbatim>\<open>-0\<close> have values that
  are not integers of the model.
\<close>

definition isDigit :: "char \<Rightarrow> bool" where
  "isDigit c = (48 \<le> (of_char c :: nat) \<and> (of_char c :: nat) \<le> 57)"

fun parseDigits :: "nat \<Rightarrow> string \<Rightarrow> nat \<times> string" where
  "parseDigits acc [] = (acc, [])"
| "parseDigits acc (c # s) =
     (if isDigit c then parseDigits (10 * acc + ((of_char c :: nat) - 48)) s else (acc, c # s))"

definition parseNat :: "string \<Rightarrow> parse_error + (nat \<times> string)" where
  "parseNat s =
     (case s of
        [] \<Rightarrow> Inl SyntaxError
      | c # r \<Rightarrow>
          if c = CHR ''0'' then Inr (0, r)
          else if isDigit c then Inr (parseDigits 0 (c # r))
          else Inl SyntaxError)"

definition parseNumber :: "string \<Rightarrow> parse_error + (int \<times> string)" where
  "parseNumber s =
     (let (negative, s1) =
            (case s of [] \<Rightarrow> (False, s) | c # r \<Rightarrow> if c = CHR ''-'' then (True, r) else (False, s))
      in case parseNat s1 of
           Inl e \<Rightarrow> Inl e
         | Inr (n, rest) \<Rightarrow>
             if (case rest of [] \<Rightarrow> False | c # r \<Rightarrow> c = CHR ''.'' \<or> c = CHR ''e'' \<or> c = CHR ''E'')
             then Inl Unmodelled
             else if int n > 9007199254740992 \<or> (negative \<and> n = 0) then Inl Unmodelled
             else Inr (if negative then - int n else int n, rest))"

text \<open>White space of JSON: space, tab, line feed, carriage return.\<close>

definition isJsonSpace :: "char \<Rightarrow> bool" where
  "isJsonSpace c = ((of_char c :: nat) = 32 \<or> (of_char c :: nat) = 9 \<or> (of_char c :: nat) = 10
                     \<or> (of_char c :: nat) = 13)"

definition skipSpace :: "string \<Rightarrow> string" where
  "skipSpace s = dropWhile isJsonSpace s"

text \<open>A value that is not an object; arrays and objects inside an object are not modelled.\<close>

definition parseScalar :: "string \<Rightarrow> parse_error + (js_value \<times> string)" where
  "parseScalar s =
     (case s of
        [] \<Rightarrow> Inl SyntaxError
      | c # r \<Rightarrow>
          if c = CHR 0x22 then
            (case parseChars r of Inl e \<Rightarrow> Inl e | Inr (str, rest) \<Rightarrow> Inr (JString str, rest))
          else if c = CHR ''-'' \<or> isDigit c then
            (case parseNumber s of Inl e \<Rightarrow> Inl e | Inr (n, rest) \<Rightarrow> Inr (JNumber n, rest))
          else if take 4 s = ''true'' then Inr (JBool True, drop 4 s)
          else if take 5 s = ''false'' then Inr (JBool False, drop 5 s)
          else if take 4 s = ''null'' then Inr (JNull, drop 4 s)
          else if c = CHR ''{'' \<or> c = CHR ''['' then Inl Unmodelled
          else Inl SyntaxError)"

text \<open>
  One member \<^verbatim>\<open>"key": value\<close> and the text after it, white space skipped. A later member
  with the same key replaces the value of the earlier one. A key made of digits is an
  array index, which an object moves to the front of its properties: not modelled.
\<close>

definition parseMember :: "string \<Rightarrow> parse_error + ((string \<times> js_value) \<times> string)" where
  "parseMember s =
     (case skipSpace s of
        [] \<Rightarrow> Inl SyntaxError
      | c # r \<Rightarrow>
          if c \<noteq> CHR 0x22 then Inl SyntaxError
          else
            (case parseChars r of
               Inl e \<Rightarrow> Inl e
             | Inr (key, r1) \<Rightarrow>
                 (case skipSpace r1 of
                    [] \<Rightarrow> Inl SyntaxError
                  | c1 # r2 \<Rightarrow>
                      if c1 \<noteq> CHR '':'' then Inl SyntaxError
                      else
                        (case parseScalar (skipSpace r2) of
                           Inl e \<Rightarrow> Inl e
                         | Inr (v, r3) \<Rightarrow> Inr ((key, v), skipSpace r3)))))"

function parseMembers ::
  "(string \<times> js_value) list \<Rightarrow> string \<Rightarrow> parse_error + (js_value \<times> string)" where
  "parseMembers acc s =
     (case parseMember s of
        Inl e \<Rightarrow> Inl e
      | Inr ((key, v), rest) \<Rightarrow>
          (case rest of
             [] \<Rightarrow> Inl SyntaxError
           | c # r \<Rightarrow>
               if key \<noteq> [] \<and> list_all isDigit key then Inl Unmodelled
               else if c = CHR ''}'' then Inr (JObject (AList.update key v acc), r)
               else if c = CHR '','' then
                 (if length r < length s then parseMembers (AList.update key v acc) r
                  else Inl SyntaxError)
               else Inl SyntaxError))"
  by pat_completeness auto
termination
  by (relation "measure (\<lambda>(acc, s). length s)") auto

declare parseMembers.simps [simp del]

definition parseObject :: "string \<Rightarrow> parse_error + (js_value \<times> string)" where
  "parseObject s =
     (case skipSpace s of
        [] \<Rightarrow> Inl SyntaxError
      | c # r \<Rightarrow> if c = CHR ''}'' then Inr (JObject [], r) else parseMembers [] (c # r))"

text \<open>\<^verbatim>\<open>JSON.parse\<close>: one value, surrounded by white space only.\<close>

definition JSON_parse :: "string \<Rightarrow> parse_error + js_value" where
  "JSON_parse text =
     (case skipSpace text of
        [] \<Rightarrow> Inl SyntaxError
      | c # r \<Rightarrow>
          (case (if c = CHR ''{'' then parseObject r
                 else if c = CHR ''['' then Inl Unmodelled
                 else parseScalar (c # r)) of
             Inl e \<Rightarrow> Inl e
           | Inr (v, rest) \<Rightarrow> if skipSpace rest = [] then Inr v else Inl SyntaxError))"

text \<open>
  UTF-8: a code unit below 128 is one byte, one from 128 to 255 the two bytes
  \<open>192 + u div 64\<close> and \<open>128 + u mod 64\<close>. The decoder reads these two forms; any other
  byte decodes to a code unit of 256 or more (for an ill-formed sequence, U+FFFD).
\<close>

definition TextEncoder_encode :: "string \<Rightarrow> nat list" where
  "TextEncoder_encode s =
     concat (map (\<lambda>c. let n = (of_char c :: nat)
                      in if n < 128 then [n] else [192 + n div 64, 128 + n mod 64]) s)"

fun TextDecoder_decode :: "nat list \<Rightarrow> string option" where
  "TextDecoder_decode [] = Some []"
| "TextDecoder_decode (b # bs) =
     (if b < 128 then map_option ((#) (char_of b)) (TextDecoder_decode bs)
      else if b = 194 \<or> b = 195 then
        (case bs of
           [] \<Rightarrow> None
         | c # rest \<Rightarrow>
             if 128 \<le> c \<and> c < 192
             then map_option ((#) (char_of ((b - 192) * 64 + (c - 128)))) (TextDecoder_decode rest)
             else None)
      else None)"





definition decodeMessage :: "nat list \<Rightarrow> parse_error + js_value" where
  "decodeMessage data =
     (case TextDecoder_decode data of
        None \<Rightarrow> Inl Unmodelled
      | Some text \<Rightarrow> JSON_parse text)"

section \<open>Runs of calls\<close>

text \<open>A sequence of \<^verbatim>\<open>addMessage\<close> calls on the Directory, in order.\<close>

definition addMessages :: "chat_message list \<Rightarrow> world \<Rightarrow> world" where
  "addMessages ms w = foldl (\<lambda>w' m. addMessage m w') w ms"

text \<open>A sequence of \<^verbatim>\<open>sendMessage\<close> calls of one session, in order.\<close>

definition sendMessages :: "env \<Rightarrow> string \<Rightarrow> string list \<Rightarrow> world \<Rightarrow> world" where
  "sendMessages E sid texts w = foldl (\<lambda>w' content. sendMessage E sid content w') w texts"

text \<open>
  The invariant of the history: every buffer was made with the Directory's
  \<^verbatim>\<open>maxMessagesPerRoom\<close> and holds no more than that.
\<close>

definition historyBounded :: "chat_state \<Rightarrow> bool" where
  "historyBounded cs =
     list_all (\<lambda>p. maxSize (snd p) = maxMessagesPerRoom cs
                  \<and> int (length (items (snd p))) \<le> maxSize (snd p))
       (roomMessages cs)"

section \<open>Sample data\<close>

text \<open>Concrete inputs on which the theorems below are instantiated.\<close>

definition sampleMessage :: "string \<Rightarrow> string \<Rightarrow> string \<Rightarrow> chat_message" where
  "sampleMessage i room fp =
     \<lparr>m_id = i, m_timestamp = 1000, m_room = room, m_nick = ''anon_'' @ take 6 fp,
      m_fingerprint = fp, m_type = Text, m_content = ''hi'', m_oldNick = None\<rparr>"

text \<open>
  An isolated node: the clock advances one millisecond per reading, and every publish
  meets a topic without remote subscribers.
\<close>

definition sampleEnv :: env where
  "sampleEnv =
     \<lparr>now = (\<lambda>n. 1000 + int n), uuidv4 = (\<lambda>n. ''id'' @ showNat n),
      publish = (\<lambda>n. PublishThrows (Error ''PublishError.NoPeersSubscribedToTopic''))\<rparr>"

definition sampleConfig :: config where
  "sampleConfig =
     \<lparr>defaultRoom = ''lobby'', maxMessageSize = 4096, rateLimit = 3, maxNickLength = 32,
      maxRoomNameLength = 32\<rparr>"

text \<open>One session created and started; then a second one.\<close>

definition sampleWorld1 :: world where
  "sampleWorld1 =
     start sampleEnv ''id0'' (snd (newUserSession sampleEnv ''AAAAAAAA'' sampleConfig (newWorld 100)))"

definition sampleWorld2 :: world where
  "sampleWorld2 =
     start sampleEnv ''id2'' (snd (newUserSession sampleEnv ''BBBBBBBB'' sampleConfig sampleWorld1))"

text \<open>A connected session that has used up its three admissions of the window.\<close>

definition sampleSession :: user_session where
  "sampleSession =
     \<lparr>s_config = sampleConfig, s_fingerprint = ''AAAAAAAA'', s_nick = ''anon_AAAAAA'',
      s_room = ''lobby'', s_isConnected = True,
      s_rateLimiter = \<lparr>timestamps = [1000, 1001, 1002], maxRequests = 3\<rparr>,
      s_subscriptions = [''lobby'']\<rparr>"


text \<open>The world of \<open>sampleSession\<close>, three readings of the clock taken.\<close>

definition sampleWorldLimited :: world where
  "sampleWorldLimited = (newWorld 100)\<lparr>sessions := [(''id0'', sampleSession)], clock := 3\<rparr>"

section \<open>Properties of the sanitizers\<close>

lemma of_char_lt_256: "(of_char c :: nat) < 256"
  by (cases c) (simp add: of_char_def)

lemma of_char_shifted:
  "upperUnit (of_char c) \<Longrightarrow> (of_char (char_of ((of_char c :: nat) + 32)) :: nat) = of_char c + 32"
  by (auto simp: upperUnit_def of_char_of)

lemma nameChar_lowerChar: "nameChar c \<Longrightarrow> nameChar (lowerChar c)"
proof (cases "upperUnit (of_char c)")
  case True
  assume h: "nameChar c"
  from h True have "65 \<le> (of_char c :: nat) \<and> (of_char c :: nat) \<le> 90"
    by (auto simp: nameChar_def upperUnit_def Let_def)
  then show ?thesis
    using True by (simp add: lowerChar_def nameChar_def Let_def of_char_shifted)
next
  case False
  assume "nameChar c"
  with False show ?thesis by (simp add: lowerChar_def)
qed

lemma lowerChar_idem: "lowerChar (lowerChar c) = lowerChar c"
proof (cases "upperUnit (of_char c)")
  case True
  have e: "(of_char (char_of ((of_char c :: nat) + 32)) :: nat) = of_char c + 32"
    by (rule of_char_shifted [OF True])
  have "\<not> upperUnit (of_char (char_of ((of_char c :: nat) + 32)))"
    unfolding e using True by (auto simp: upperUnit_def)
  then have "lowerChar (char_of ((of_char c :: nat) + 32)) = char_of ((of_char c :: nat) + 32)"
    by (simp only: lowerChar_def if_False)
  with True show ?thesis
    by (simp only: lowerChar_def if_True)
next
  case False
  then show ?thesis by (simp add: lowerChar_def)
qed

lemma toLowerCase_idem: "toLowerCase (toLowerCase s) = toLowerCase s"
  by (simp add: toLowerCase_def lowerChar_idem)

lemma filter_nameChar_id: "list_all nameChar s \<Longrightarrow> filter nameChar s = s"
  by (induction s) auto

lemma list_all_take: "list_all P s \<Longrightarrow> list_all P (take n s)"
  by (induction s arbitrary: n) (auto simp: take_Cons split: nat.splits)

lemma list_all_filter_same: "list_all P (filter P s)"
  by (induction s) auto

lemma list_all_nameChar_lower: "list_all nameChar s \<Longrightarrow> list_all nameChar (toLowerCase s)"
  by (induction s) (auto simp: toLowerCase_def nameChar_lowerChar)

lemma sanitizeNick_chars: "list_all nameChar (sanitizeNick x)"
  by (simp add: sanitizeNick_def list_all_take list_all_filter_same)

lemma sanitizeNick_length: "length (sanitizeNick x) \<le> 32"
  by (simp add: sanitizeNick_def)

lemma sanitizeRoomName_chars: "list_all nameChar (sanitizeRoomName x)"
  by (simp add: sanitizeRoomName_def list_all_nameChar_lower list_all_take list_all_filter_same)

lemma sanitizeRoomName_length: "length (sanitizeRoomName x) \<le> 32"
  by (simp add: sanitizeRoomName_def toLowerCase_def)

lemma sanitizeNick_idem: "sanitizeNick (sanitizeNick x) = sanitizeNick x"
proof -
  have "filter nameChar (sanitizeNick x) = sanitizeNick x"
    by (rule filter_nameChar_id) (rule sanitizeNick_chars)
  then have "sanitizeNick (sanitizeNick x) = take 32 (sanitizeNick x)"
    by (simp add: sanitizeNick_def)
  also have "\<dots> = sanitizeNick x"
    using sanitizeNick_length [of x] by simp
  finally show ?thesis .
qed

lemma sanitizeRoomName_idem: "sanitizeRoomName (sanitizeRoomName x) = sanitizeRoomName x"
proof -
  have "filter nameChar (sanitizeRoomName x) = sanitizeRoomName x"
    by (rule filter_nameChar_id) (rule sanitizeRoomName_chars)
  then have "sanitizeRoomName (sanitizeRoomName x) = toLowerCase (take 32 (sanitizeRoomName x))"
    by (simp add: sanitizeRoomName_def)
  also have "\<dots> = toLowerCase (sanitizeRoomName x)"
    using sanitizeRoomName_length [of x] by simp
  also have "\<dots> = sanitizeRoomName x"
    by (simp add: sanitizeRoomName_def toLowerCase_idem)
  finally show ?thesis .
qed

text \<open>
  C9. Both sanitizers are idempotent; the output of \<open>sanitizeRoomName\<close> is already lower
  case; both outputs consist of characters of \<^verbatim>\<open>[a-zA-Z0-9_-]\<close> only and have at most
  32 characters.
\<close>

theorem C9_sanitizers_idempotent:
  "sanitizeNick (sanitizeNick x) = sanitizeNick x
   \<and> sanitizeRoomName (sanitizeRoomName x) = sanitizeRoomName x
   \<and> toLowerCase (sanitizeRoomName x) = sanitizeRoomName x
   \<and> list_all nameChar (sanitizeNick x) \<and> length (sanitizeNick x) \<le> 32
   \<and> list_all nameChar (sanitizeRoomName x) \<and> length (sanitizeRoomName x) \<le> 32"
  by (simp add: sanitizeNick_idem sanitizeRoomName_idem sanitizeNick_chars
      sanitizeNick_length sanitizeRoomName_chars sanitizeRoomName_length)
    (simp add: sanitizeRoomName_def toLowerCase_idem)

section \<open>The rate limiter\<close>

lemma canProceed_fst:
  "fst (canProceed t0 rl) = (int (length (filter (\<lambda>x. t0 - 1000 < x) (timestamps rl))) < maxRequests rl)"
  by (simp add: canProceed_def windowMs_def Let_def)

lemma canProceed_snd:
  "snd (canProceed t0 rl) = rl\<lparr>timestamps := filter (\<lambda>x. t0 - 1000 < x) (timestamps rl)\<rparr>"
  by (simp add: canProceed_def windowMs_def Let_def)

lemma record_limiter_refused:
  "\<not> fst (canProceed t1 rl) \<Longrightarrow>
   record_limiter t1 t2 rl = (False, rl\<lparr>timestamps := filter (\<lambda>x. t1 - 1000 < x) (timestamps rl)\<rparr>)"
  by (simp add: record_limiter_def canProceed_def windowMs_def Let_def)

lemma record_limiter_admitted:
  "fst (canProceed t1 rl) \<Longrightarrow>
   record_limiter t1 t2 rl = (True, rl\<lparr>timestamps := filter (\<lambda>x. t1 - 1000 < x) (timestamps rl) @ [t2]\<rparr>)"
  by (simp add: record_limiter_def canProceed_def windowMs_def Let_def)

lemma record_limiter_maxRequests: "maxRequests (snd (record_limiter t1 t2 rl)) = maxRequests rl"
  by (simp add: record_limiter_def canProceed_def Let_def split: bool.splits)

lemma record_calls_Cons:
  "fst (record_calls ((a, b) # cs) rl) =
     fst (record_limiter a b rl) # fst (record_calls cs (snd (record_limiter a b rl)))"
  by (simp split: prod.splits)

lemma all_false_map:
  "\<not> int n < m \<Longrightarrow> map (\<lambda>k. int (n + k) < m) xs = map (\<lambda>k. int (n + Suc k) < m) xs"
  by (induction xs) auto

lemma record_calls_in_window:
  "(\<forall>x \<in> set (timestamps rl) \<union> (fst ` set cs \<union> snd ` set cs).
      \<forall>y \<in> fst ` set cs \<union> snd ` set cs. y - 1000 < x) \<Longrightarrow>
   fst (record_calls cs rl) =
     map (\<lambda>k. int (length (timestamps rl) + k) < maxRequests rl) [0..<length cs]"
proof (induction cs arbitrary: rl)
  case Nil
  then show ?case by simp
next
  case (Cons c cs)
  obtain a b where c: "c = (a, b)" by (cases c)
  have keep: "filter (\<lambda>t. a - 1000 < t) (timestamps rl) = timestamps rl"
    using Cons.prems by (auto simp: c filter_id_conv)
  have up: "[0..<Suc (length cs)] = 0 # map Suc [0..<length cs]"
    by (simp add: upt_conv_Cons map_Suc_upt del: upt_Suc)
  show ?case
  proof (cases "int (length (timestamps rl)) < maxRequests rl")
    case True
    let ?rl1 = "rl\<lparr>timestamps := timestamps rl @ [b]\<rparr>"
    have r: "record_limiter a b rl = (True, ?rl1)"
      using True record_limiter_admitted [of a rl b] by (simp add: canProceed_fst keep)
    have "fst (record_calls cs ?rl1) =
        map (\<lambda>k. int (length (timestamps ?rl1) + k) < maxRequests ?rl1) [0..<length cs]"
      by (rule Cons.IH) (use Cons.prems in \<open>auto simp: c\<close>)
    then show ?thesis
      using True unfolding c record_calls_Cons r
      by (simp add: up comp_def algebra_simps del: upt_Suc)
  next
    case False
    have r: "record_limiter a b rl = (False, rl)"
      using False record_limiter_refused [of a rl b] by (simp add: canProceed_fst keep)
    have "fst (record_calls cs rl) =
        map (\<lambda>k. int (length (timestamps rl) + k) < maxRequests rl) [0..<length cs]"
      by (rule Cons.IH) (use Cons.prems in \<open>auto simp: c\<close>)
    then show ?thesis
      using False unfolding c record_calls_Cons r
      by (simp add: up comp_def all_false_map [OF False] del: upt_Suc)
  qed
qed

lemma eleven: "map (\<lambda>k. int k < 10) [0..<11] = replicate 10 True @ [False]"
  by (simp add: upt_rec numeral_eq_Suc)

text \<open>
  C4. \<open>canProceed\<close> answers true iff fewer than \<open>maxRequests\<close> recorded timestamps
  lie in the last 1000 ms of its clock reading (an entry \<open>x\<close> with \<open>t0 - 1000 < x\<close>);
  a refused \<open>record\<close> returns false and only drops the expired entries, an admitted one
  also appends its second clock reading and returns true; with limit 10, of eleven calls
  whose clock readings lie less than 1000 ms apart the first ten are admitted and the
  eleventh is refused.
\<close>

theorem C4_rate_limiter:
  "(fst (canProceed t0 rl) \<longleftrightarrow>
      int (card {i. i < length (timestamps rl) \<and> t0 - 1000 < timestamps rl ! i}) < maxRequests rl)
   \<and> (\<not> fst (canProceed t1 rl) \<longrightarrow>
        record_limiter t1 t2 rl =
          (False, rl\<lparr>timestamps := filter (\<lambda>x. t1 - 1000 < x) (timestamps rl)\<rparr>))
   \<and> (fst (canProceed t1 rl) \<longrightarrow>
        record_limiter t1 t2 rl =
          (True, rl\<lparr>timestamps := filter (\<lambda>x. t1 - 1000 < x) (timestamps rl) @ [t2]\<rparr>))
   \<and> (length cs = 11 \<and>
        (\<forall>x \<in> fst ` set cs \<union> snd ` set cs. \<forall>y \<in> fst ` set cs \<union> snd ` set cs. y - 1000 < x) \<longrightarrow>
        fst (record_calls cs (newRateLimiter 10)) = replicate 10 True @ [False])"
proof (intro conjI impI)
  show "fst (canProceed t0 rl) \<longleftrightarrow>
      int (card {i. i < length (timestamps rl) \<and> t0 - 1000 < timestamps rl ! i}) < maxRequests rl"
    by (simp add: canProceed_fst length_filter_conv_card)
next
  assume "\<not> fst (canProceed t1 rl)"
  then show "record_limiter t1 t2 rl =
          (False, rl\<lparr>timestamps := filter (\<lambda>x. t1 - 1000 < x) (timestamps rl)\<rparr>)"
    by (rule record_limiter_refused)
next
  assume "fst (canProceed t1 rl)"
  then show "record_limiter t1 t2 rl =
          (True, rl\<lparr>timestamps := filter (\<lambda>x. t1 - 1000 < x) (timestamps rl) @ [t2]\<rparr>)"
    by (rule record_limiter_admitted)
next
  assume h: "length cs = 11 \<and>
        (\<forall>x \<in> fst ` set cs \<union> snd ` set cs. \<forall>y \<in> fst ` set cs \<union> snd ` set cs. y - 1000 < x)"
  have "fst (record_calls cs (newRateLimiter 10)) =
      map (\<lambda>k. int (length (timestamps (newRateLimiter 10)) + k) < maxRequests (newRateLimiter 10))
        [0..<length cs]"
    by (rule record_calls_in_window) (use h in \<open>simp add: newRateLimiter_def\<close>)
  then show "fst (record_calls cs (newRateLimiter 10)) = replicate 10 True @ [False]"
    using h eleven by (simp add: newRateLimiter_def)
qed

theorem C4_rate_limiter_witness:
  "fst (canProceed 1200 \<lparr>timestamps = [100, 900], maxRequests = 2\<rparr>)
   \<and> record_limiter 1200 1201 \<lparr>timestamps = [100, 900], maxRequests = 2\<rparr>
       = (True, \<lparr>timestamps = [900, 1201], maxRequests = 2\<rparr>)
   \<and> \<not> fst (canProceed 1000 \<lparr>timestamps = [100, 900], maxRequests = 2\<rparr>)
   \<and> record_limiter 1000 1001 \<lparr>timestamps = [100, 900], maxRequests = 2\<rparr>
       = (False, \<lparr>timestamps = [100, 900], maxRequests = 2\<rparr>)
   \<and> fst (record_calls [(0, 0), (10, 10), (20, 21), (30, 30), (40, 40), (50, 50), (60, 60),
            (70, 70), (80, 80), (90, 90), (100, 100)] (newRateLimiter 10))
       = replicate 10 True @ [False]"
  using C4_rate_limiter [of 1200 "\<lparr>timestamps = [100, 900], maxRequests = 2\<rparr>" 1200 1201
      "[(0, 0), (10, 10), (20, 21), (30, 30), (40, 40), (50, 50), (60, 60),
            (70, 70), (80, 80), (90, 90), (100, 100)]"]
    C4_rate_limiter [of 1000 "\<lparr>timestamps = [100, 900], maxRequests = 2\<rparr>" 1000 1001 "[]"]
  by (simp add: canProceed_fst)

section \<open>Frame of the Directory's events\<close>

lemma callback_frame:
  "callback sid ev w = w\<lparr>callbacks := callbacks w @ [(sid, ev)]\<rparr>"
  by (simp add: callback_def)

lemma updateUserList_frame:
  "updateUserList sid w = w\<lparr>callbacks := callbacks (updateUserList sid w)\<rparr>"
  by (simp add: updateUserList_def callback_def split: option.splits)

lemma stateListener_frame:
  "stateListener sid e w = w\<lparr>callbacks := callbacks (stateListener sid e w)\<rparr>"
  by (cases e)
    (simp_all add: stateListener_def updateUserList_def callback_def split: option.splits)

lemma foldl_stateListener_frame:
  "foldl (\<lambda>w' sid. stateListener sid e w') w sids =
     w\<lparr>callbacks := callbacks (foldl (\<lambda>w' sid. stateListener sid e w') w sids)\<rparr>"
proof (induction sids arbitrary: w)
  case Nil
  show ?case by simp
next
  case (Cons sid sids)
  have "foldl (\<lambda>w' sid. stateListener sid e w') (stateListener sid e w) sids =
      (stateListener sid e w)\<lparr>callbacks :=
         callbacks (foldl (\<lambda>w' sid. stateListener sid e w') (stateListener sid e w) sids)\<rparr>"
    by (rule Cons.IH)
  also have "\<dots> = w\<lparr>callbacks :=
         callbacks (foldl (\<lambda>w' sid. stateListener sid e w') (stateListener sid e w) sids)\<rparr>"
    by (subst stateListener_frame) simp
  finally show ?case by simp
qed

lemma emit_frame: "emit e w = w\<lparr>callbacks := callbacks (emit e w)\<rparr>"
  unfolding emit_def by (rule foldl_stateListener_frame)

lemma chatState_emit: "chatState (emit e w) = chatState w"
  by (subst emit_frame) simp

lemma sessions_emit: "sessions (emit e w) = sessions w"
  by (subst emit_frame) simp

lemma published_emit: "published (emit e w) = published w"
  by (subst emit_frame) simp

lemma clock_emit: "clock (emit e w) = clock w"
  by (subst emit_frame) simp

lemma uuids_emit: "uuids (emit e w) = uuids w"
  by (subst emit_frame) simp

lemma topics_emit: "topics (emit e w) = topics w"
  by (subst emit_frame) simp

section \<open>The bounded history\<close>

text \<open>The last \<open>n\<close> elements of a list: what a buffer of capacity \<open>n\<close> keeps.\<close>

lemma push_items:
  "0 \<le> maxSize b \<Longrightarrow> int (length (items b)) \<le> maxSize b \<Longrightarrow>
   items (push x b) = drop (length (items b @ [x]) - nat (maxSize b)) (items b @ [x])"
  by (cases "items b") (auto simp: push_def Let_def drop_Cons' nat_le_iff not_less)

lemma push_maxSize: "maxSize (push x b) = maxSize b"
  by (simp add: push_def Let_def)

lemma push_length: "0 \<le> maxSize b \<Longrightarrow> int (length (items b)) \<le> maxSize b \<Longrightarrow>
   int (length (items (push x b))) \<le> maxSize b"
  by (auto simp: push_def Let_def)


lemma drop_last_append:
  "drop (length (drop (length xs - n) xs @ ys) - n) (drop (length xs - n) xs @ ys) =
   drop (length (xs @ ys) - n) (xs @ ys)"
proof (cases "length xs \<le> n")
  case True
  then show ?thesis by simp
next
  case False
  then have a: "length xs - n \<le> length xs" and l: "length xs - (length xs - n) = n"
    by simp_all
  have "drop (length (xs @ ys) - n) (xs @ ys) = drop (length ys + (length xs - n)) (xs @ ys)"
    using False by (simp add: add.commute)
  also have "\<dots> = drop (length ys) (drop (length xs - n) (xs @ ys))"
    by (simp only: drop_drop)
  also have "\<dots> = drop (length ys) (drop (length xs - n) xs @ ys)"
    using a by simp
  finally show ?thesis using l by simp
qed

lemma historyBounded_lookup:
  "historyBounded cs \<Longrightarrow> map_of (roomMessages cs) R = Some b \<Longrightarrow>
   maxSize b = maxMessagesPerRoom cs \<and> int (length (items b)) \<le> maxSize b"
  by (auto simp: historyBounded_def list_all_iff dest!: map_of_SomeD)

lemma chatState_addMessage:
  "chatState (addMessage m w) =
     (chatState w)\<lparr>roomMessages :=
        AList.update (m_room m)
          (push m (case map_of (roomMessages (chatState w)) (m_room m) of
                     None \<Rightarrow> newBoundedBuffer (maxMessagesPerRoom (chatState w))
                   | Some b \<Rightarrow> b))
          (roomMessages (chatState w))\<rparr>"
  by (simp add: addMessage_def Let_def chatState_emit)

lemma maxMessagesPerRoom_addMessage:
  "maxMessagesPerRoom (chatState (addMessage m w)) = maxMessagesPerRoom (chatState w)"
  by (simp add: chatState_addMessage)

lemma history_addMessage_other:
  "m_room m \<noteq> R \<Longrightarrow>
   getRecentMessages (chatState (addMessage m w)) R None = getRecentMessages (chatState w) R None"
  by (simp add: chatState_addMessage getRecentMessages_def update_conv')

lemma history_addMessage_same:
  assumes cap: "0 \<le> maxMessagesPerRoom (chatState w)" and inv: "historyBounded (chatState w)"
  shows "getRecentMessages (chatState (addMessage m w)) (m_room m) None =
      drop (length (getRecentMessages (chatState w) (m_room m) None @ [m])
              - nat (maxMessagesPerRoom (chatState w)))
        (getRecentMessages (chatState w) (m_room m) None @ [m])"
proof (cases "map_of (roomMessages (chatState w)) (m_room m)")
  case None
  have "items (push m (newBoundedBuffer (maxMessagesPerRoom (chatState w)))) =
      drop (length ([] @ [m]) - nat (maxMessagesPerRoom (chatState w))) ([] @ [m])"
    using push_items [of "newBoundedBuffer (maxMessagesPerRoom (chatState w))" m] cap
    by (simp add: newBoundedBuffer_def)
  with None show ?thesis
    by (simp add: chatState_addMessage getRecentMessages_def getAll_def update_conv')
next
  case (Some b)
  from historyBounded_lookup [OF inv Some]
  have "maxSize b = maxMessagesPerRoom (chatState w)"
    and "int (length (items b)) \<le> maxSize b" by simp_all
  then have "items (push m b) =
      drop (length (items b @ [m]) - nat (maxMessagesPerRoom (chatState w))) (items b @ [m])"
    using push_items [of b m] cap by simp
  with Some show ?thesis
    by (simp add: chatState_addMessage getRecentMessages_def getAll_def update_conv')
qed

lemma set_alist_update: "set (AList.update k v al) \<subseteq> insert (k, v) (set al)"
  by (induction al) auto

lemma historyBounded_addMessage:
  assumes cap: "0 \<le> maxMessagesPerRoom (chatState w)" and inv: "historyBounded (chatState w)"
  shows "historyBounded (chatState (addMessage m w))"
proof -
  let ?b = "case map_of (roomMessages (chatState w)) (m_room m) of
              None \<Rightarrow> newBoundedBuffer (maxMessagesPerRoom (chatState w))
            | Some b \<Rightarrow> b"
  have old: "maxSize ?b = maxMessagesPerRoom (chatState w) \<and> int (length (items ?b)) \<le> maxSize ?b"
  proof (cases "map_of (roomMessages (chatState w)) (m_room m)")
    case None
    then show ?thesis using cap by (simp add: newBoundedBuffer_def)
  next
    case (Some b)
    then show ?thesis using historyBounded_lookup [OF inv Some] by simp
  qed
  then have new: "maxSize (push m ?b) = maxMessagesPerRoom (chatState w)
      \<and> int (length (items (push m ?b))) \<le> maxSize (push m ?b)"
    using cap push_length [of ?b m] by (simp add: push_maxSize)
  have "set (AList.update (m_room m) (push m ?b) (roomMessages (chatState w)))
      \<subseteq> insert (m_room m, push m ?b) (set (roomMessages (chatState w)))"
    by (rule set_alist_update)
  then show ?thesis
    using inv new unfolding chatState_addMessage historyBounded_def list_all_iff
    by (auto simp del: AList.update.simps)
qed

lemma history_addMessages:
  assumes cap: "0 \<le> maxMessagesPerRoom (chatState w)" and inv: "historyBounded (chatState w)"
  shows "getRecentMessages (chatState (addMessages ms w)) R None =
      drop (length (getRecentMessages (chatState w) R None @ filter (\<lambda>m. m_room m = R) ms)
              - nat (maxMessagesPerRoom (chatState w)))
        (getRecentMessages (chatState w) R None @ filter (\<lambda>m. m_room m = R) ms)"
  using cap inv
proof (induction ms arbitrary: w)
  case Nil
  have "int (length (getRecentMessages (chatState w) R None)) \<le> maxMessagesPerRoom (chatState w)"
  proof (cases "map_of (roomMessages (chatState w)) R")
    case None
    then show ?thesis using Nil.prems(1) by (simp add: getRecentMessages_def)
  next
    case (Some b)
    then show ?thesis using historyBounded_lookup [OF Nil.prems(2) Some]
      by (simp add: getRecentMessages_def getAll_def)
  qed
  then show ?case by (simp add: addMessages_def)
next
  case (Cons m ms)
  let ?w = "addMessage m w"
  let ?n = "nat (maxMessagesPerRoom (chatState w))"
  let ?old = "getRecentMessages (chatState w) R None"
  have cap': "0 \<le> maxMessagesPerRoom (chatState ?w)"
    using Cons.prems(1) by (simp add: maxMessagesPerRoom_addMessage)
  have inv': "historyBounded (chatState ?w)"
    by (rule historyBounded_addMessage [OF Cons.prems])
  have step: "addMessages (m # ms) w = addMessages ms ?w"
    by (simp add: addMessages_def)
  have ih: "getRecentMessages (chatState (addMessages ms ?w)) R None =
      drop (length (getRecentMessages (chatState ?w) R None @ filter (\<lambda>m. m_room m = R) ms) - ?n)
        (getRecentMessages (chatState ?w) R None @ filter (\<lambda>m. m_room m = R) ms)"
    using Cons.IH [OF cap' inv'] by (simp add: maxMessagesPerRoom_addMessage)
  show ?case
  proof (cases "m_room m = R")
    case True
    have h: "getRecentMessages (chatState ?w) R None = drop (length (?old @ [m]) - ?n) (?old @ [m])"
      using history_addMessage_same [OF Cons.prems, of m] True by simp
    show ?thesis
      unfolding step ih h using True
        drop_last_append [of "?old @ [m]" ?n "filter (\<lambda>m. m_room m = R) ms"]
      by simp
  next
    case False
    then show ?thesis unfolding step ih by (simp add: history_addMessage_other)
  qed
qed

lemma historyBounded_empty: "roomMessages cs = [] \<Longrightarrow> historyBounded cs"
  by (simp add: historyBounded_def)

text \<open>
  C3. On a Directory with a capacity \<open>maxMessagesPerRoom \<ge> 0\<close> and no history yet, after
  any sequence of \<open>addMessage\<close> calls the history of every room \<open>R\<close> holds at most
  \<open>maxMessagesPerRoom\<close> messages; when \<open>maxMessagesPerRoom + 1\<close> of the messages went to
  \<open>R\<close>, its history is these without the first, and its length is \<open>maxMessagesPerRoom\<close>.
\<close>

theorem C3_history_bounded:
  "0 \<le> maxMessagesPerRoom (chatState w) \<and> roomMessages (chatState w) = [] \<longrightarrow>
     int (length (getRecentMessages (chatState (addMessages ms w)) R None))
       \<le> maxMessagesPerRoom (chatState w)
     \<and> (int (length (filter (\<lambda>m. m_room m = R) ms)) = maxMessagesPerRoom (chatState w) + 1 \<longrightarrow>
          getRecentMessages (chatState (addMessages ms w)) R None
            = tl (filter (\<lambda>m. m_room m = R) ms)
          \<and> int (length (getRecentMessages (chatState (addMessages ms w)) R None))
            = maxMessagesPerRoom (chatState w))"
proof (intro impI, elim conjE)
  assume cap: "0 \<le> maxMessagesPerRoom (chatState w)" and e: "roomMessages (chatState w) = []"
  let ?ms = "filter (\<lambda>m. m_room m = R) ms"
  let ?n = "nat (maxMessagesPerRoom (chatState w))"
  have old: "getRecentMessages (chatState w) R None = []"
    using e by (simp add: getRecentMessages_def)
  have h: "getRecentMessages (chatState (addMessages ms w)) R None = drop (length ?ms - ?n) ?ms"
    using history_addMessages [OF cap historyBounded_empty [OF e], of ms R] old by simp
  have 1: "int (length (getRecentMessages (chatState (addMessages ms w)) R None))
       \<le> maxMessagesPerRoom (chatState w)"
    unfolding h using cap by simp
  have 2: "getRecentMessages (chatState (addMessages ms w)) R None = tl ?ms
      \<and> int (length (getRecentMessages (chatState (addMessages ms w)) R None))
            = maxMessagesPerRoom (chatState w)"
    if l: "int (length ?ms) = maxMessagesPerRoom (chatState w) + 1"
  proof -
    from l cap have "length ?ms - ?n = 1" by simp
    then show ?thesis unfolding h using l by (simp add: drop_Suc)
  qed
  from 1 2 show "int (length (getRecentMessages (chatState (addMessages ms w)) R None))
       \<le> maxMessagesPerRoom (chatState w)
     \<and> (int (length ?ms) = maxMessagesPerRoom (chatState w) + 1 \<longrightarrow>
          getRecentMessages (chatState (addMessages ms w)) R None = tl ?ms
          \<and> int (length (getRecentMessages (chatState (addMessages ms w)) R None))
            = maxMessagesPerRoom (chatState w))"
    by blast
qed


theorem C3_history_bounded_witness:
  "getRecentMessages
     (chatState (addMessages
        [sampleMessage ''1'' ''lobby'' ''AAAAAAAA'', sampleMessage ''2'' ''quiet'' ''AAAAAAAA'',
         sampleMessage ''3'' ''lobby'' ''BBBBBBBB'', sampleMessage ''4'' ''lobby'' ''AAAAAAAA'']
        (newWorld 2))) ''lobby'' None
     = [sampleMessage ''3'' ''lobby'' ''BBBBBBBB'', sampleMessage ''4'' ''lobby'' ''AAAAAAAA'']"
  using C3_history_bounded [of "newWorld 2"
      "[sampleMessage ''1'' ''lobby'' ''AAAAAAAA'', sampleMessage ''2'' ''quiet'' ''AAAAAAAA'',
        sampleMessage ''3'' ''lobby'' ''BBBBBBBB'', sampleMessage ''4'' ''lobby'' ''AAAAAAAA'']"
      "''lobby''"]
  by (simp add: newWorld_def newChatState_def sampleMessage_def)

section \<open>Nickname lookup\<close>






section \<open>Publishing\<close>

lemma includes_str_iff: "includes_str s p \<longleftrightarrow> (\<exists>pre post. s = pre @ p @ post)"
proof (induction s)
  case Nil
  show ?case by auto
next
  case (Cons c s)
  have "take (length p) (c # s) = p \<longleftrightarrow> (\<exists>post. c # s = p @ post)"
    by (metis append_eq_conv_conj append_take_drop_id)
  moreover have "(\<exists>pre post. c # s = pre @ p @ post) \<longleftrightarrow>
      (\<exists>post. c # s = p @ post) \<or> (\<exists>pre post. s = pre @ p @ post)"
  proof
    assume "\<exists>pre post. c # s = pre @ p @ post"
    then obtain pre post where e: "c # s = pre @ p @ post" by blast
    show "(\<exists>post. c # s = p @ post) \<or> (\<exists>pre post. s = pre @ p @ post)"
    proof (cases pre)
      case Nil
      with e show ?thesis by auto
    next
      case (Cons a pre')
      with e have "s = pre' @ p @ post" by simp
      then show ?thesis by blast
    qed
  next
    assume "(\<exists>post. c # s = p @ post) \<or> (\<exists>pre post. s = pre @ p @ post)"
    then show "\<exists>pre post. c # s = pre @ p @ post"
    proof
      assume "\<exists>post. c # s = p @ post"
      then obtain post where "c # s = [] @ p @ post" by auto
      then show ?thesis by blast
    next
      assume "\<exists>pre post. s = pre @ p @ post"
      then obtain pre post where "c # s = (c # pre) @ p @ post" by auto
      then show ?thesis by blast
    qed
  qed
  ultimately show ?case using Cons.IH by simp
qed

text \<open>
  C7. The router's \<open>sendMessage\<close> returns normally when the overlay's \<^verbatim>\<open>publish\<close>
  succeeds, and also when it throws a value whose message contains
  \<^verbatim>\<open>NoPeersSubscribedToTopic\<close> (the overlay's signal for a topic without remote
  subscribers); any other thrown value is thrown on to the caller. In every case the
  publish call was made on the room's topic.
\<close>

theorem C7_publish_to_empty_topic:
  "(publish E (length (published w)) = Published \<longrightarrow>
      fst (ChatPubSub_sendMessage E room m w) = Inr ())
   \<and> (publish E (length (published w)) = PublishThrows err
        \<and> (\<exists>pre post. errorMessage err = pre @ ''NoPeersSubscribedToTopic'' @ post) \<longrightarrow>
      fst (ChatPubSub_sendMessage E room m w) = Inr ())
   \<and> (publish E (length (published w)) = PublishThrows err
        \<and> \<not> (\<exists>pre post. errorMessage err = pre @ ''NoPeersSubscribedToTopic'' @ post) \<longrightarrow>
      fst (ChatPubSub_sendMessage E room m w) = Inl err)
   \<and> published (snd (ChatPubSub_sendMessage E room m w))
       = published w @ [(''/whisper/room/'' @ room, m)]"
proof -
  define noPeers where
    "noPeers = (\<exists>pre post. errorMessage err = pre @ ''NoPeersSubscribedToTopic'' @ post)"
  have i: "includes_str (errorMessage err) ''NoPeersSubscribedToTopic'' = noPeers"
    unfolding noPeers_def by (rule includes_str_iff)
  show ?thesis
    unfolding noPeers_def [symmetric]
    by (simp add: ChatPubSub_sendMessage_def Let_def getTopic_def TOPIC_PREFIX_def i
        split: publish_result.splits)
qed

theorem C7_publish_to_empty_topic_witness:
  "fst (ChatPubSub_sendMessage
         \<lparr>now = (\<lambda>n. 1000), uuidv4 = (\<lambda>n. ''id''),
          publish = (\<lambda>n. PublishThrows (Error ''PublishError.NoPeersSubscribedToTopic''))\<rparr>
         ''lobby'' (sampleMessage ''1'' ''lobby'' ''AAAAAAAA'') (newWorld 100)) = Inr ()
   \<and> fst (ChatPubSub_sendMessage
         \<lparr>now = (\<lambda>n. 1000), uuidv4 = (\<lambda>n. ''id''),
          publish = (\<lambda>n. PublishThrows (Error ''PublishError.Duplicate''))\<rparr>
         ''lobby'' (sampleMessage ''1'' ''lobby'' ''AAAAAAAA'') (newWorld 100))
       = Inl (Error ''PublishError.Duplicate'')
   \<and> fst (ChatPubSub_sendMessage
         \<lparr>now = (\<lambda>n. 1000), uuidv4 = (\<lambda>n. ''id''), publish = (\<lambda>n. Published)\<rparr>
         ''lobby'' (sampleMessage ''1'' ''lobby'' ''AAAAAAAA'') (newWorld 100)) = Inr ()"
proof -
  have a: "\<exists>pre post. errorMessage (Error ''PublishError.NoPeersSubscribedToTopic'')
      = pre @ ''NoPeersSubscribedToTopic'' @ post"
    unfolding includes_str_iff [symmetric] by simp
  have b: "\<not> (\<exists>pre post. errorMessage (Error ''PublishError.Duplicate'')
      = pre @ ''NoPeersSubscribedToTopic'' @ post)"
    unfolding includes_str_iff [symmetric] by simp
  show ?thesis
    using a b
      C7_publish_to_empty_topic [of
        "\<lparr>now = (\<lambda>n. 1000), uuidv4 = (\<lambda>n. ''id''),
          publish = (\<lambda>n. PublishThrows (Error ''PublishError.NoPeersSubscribedToTopic''))\<rparr>"
        "newWorld 100" "''lobby''" "sampleMessage ''1'' ''lobby'' ''AAAAAAAA''"
        "Error ''PublishError.NoPeersSubscribedToTopic''"]
      C7_publish_to_empty_topic [of
        "\<lparr>now = (\<lambda>n. 1000), uuidv4 = (\<lambda>n. ''id''),
          publish = (\<lambda>n. PublishThrows (Error ''PublishError.Duplicate''))\<rparr>"
        "newWorld 100" "''lobby''" "sampleMessage ''1'' ''lobby'' ''AAAAAAAA''"
        "Error ''PublishError.Duplicate''"]
      C7_publish_to_empty_topic [of
        "\<lparr>now = (\<lambda>n. 1000), uuidv4 = (\<lambda>n. ''id''), publish = (\<lambda>n. Published)\<rparr>"
        "newWorld 100" "''lobby''" "sampleMessage ''1'' ''lobby'' ''AAAAAAAA''"
        "Error ''x''"]
    by (simp add: newWorld_def)
qed

section \<open>Sample worlds\<close>

lemma sampleWorld1_session:
  "getSession sampleWorld1 ''id0'' =
     Some \<lparr>s_config = sampleConfig, s_fingerprint = ''AAAAAAAA'', s_nick = ''anon_AAAAAA'',
           s_room = ''lobby'', s_isConnected = True,
           s_rateLimiter = \<lparr>timestamps = [], maxRequests = 3\<rparr>,
           s_subscriptions = [''lobby'']\<rparr>"
  by code_simp


lemma sampleWorld1_clock: "clock sampleWorld1 = 2"
  by code_simp

section \<open>The /nick command\<close>

text \<open>
  C10. \<open>sanitizeNick\<close> returns at most 32 characters. So for a session whose configured
  \<open>maxNickLength\<close> is 32 or more, the \<^verbatim>\<open>/nick\<close> command never takes the branch that
  answers \<^verbatim>\<open>Nickname too long\<close>: it is the command without that test, and the value of
  \<open>maxNickLength\<close> does not enter the result.
\<close>

theorem C10_nick_too_long_unreachable:
  "length (sanitizeNick x) \<le> 32
   \<and> (getSession w sid = Some s \<and> 32 \<le> maxNickLength (s_config s) \<longrightarrow>
        nickCommand E sid args w =
          (case args of
             [] \<Rightarrow> showSystemMessage sid ''Usage: /nick <new_name>'' w
           | a # rest \<Rightarrow>
               if sanitizeNick a = []
               then showSystemMessage sid
                      ''Invalid nickname. Use alphanumeric characters, underscores, and dashes only.''
                      w
               else changeNick E sid (sanitizeNick a) w))"
proof (intro conjI impI)
  show "length (sanitizeNick x) \<le> 32" by (rule sanitizeNick_length)
next
  assume h: "getSession w sid = Some s \<and> 32 \<le> maxNickLength (s_config s)"
  have "\<not> int (length (sanitizeNick a)) > maxNickLength (s_config s)" for a
    using sanitizeNick_length [of a] h by simp
  then show "nickCommand E sid args w =
          (case args of
             [] \<Rightarrow> showSystemMessage sid ''Usage: /nick <new_name>'' w
           | a # rest \<Rightarrow>
               if sanitizeNick a = []
               then showSystemMessage sid
                      ''Invalid nickname. Use alphanumeric characters, underscores, and dashes only.''
                      w
               else changeNick E sid (sanitizeNick a) w)"
    using h by (simp add: nickCommand_def Let_def split: list.splits)
qed

lemma sanitizeNick_sample:
  "sanitizeNick ''abcdefghijklmnopqrstuvwxyz0123456789_-xx'' = ''abcdefghijklmnopqrstuvwxyz012345''"
  by code_simp

theorem C10_nick_too_long_unreachable_witness:
  "nickCommand sampleEnv ''id0'' [''abcdefghijklmnopqrstuvwxyz0123456789_-xx''] sampleWorld1
     = changeNick sampleEnv ''id0'' ''abcdefghijklmnopqrstuvwxyz012345'' sampleWorld1"
  using sampleWorld1_session sanitizeNick_sample
    C10_nick_too_long_unreachable [where w = sampleWorld1 and sid = "''id0''" and E = sampleEnv
      and s = "\<lparr>s_config = sampleConfig, s_fingerprint = ''AAAAAAAA'', s_nick = ''anon_AAAAAA'',
           s_room = ''lobby'', s_isConnected = True,
           s_rateLimiter = \<lparr>timestamps = [], maxRequests = 3\<rparr>,
           s_subscriptions = [''lobby'']\<rparr>"
      and args = "[''abcdefghijklmnopqrstuvwxyz0123456789_-xx'']"]
  by (simp add: sampleConfig_def)

section \<open>What each step of a session operation leaves alone\<close>

lemma callback_fields:
  "sessions (callback sid ev w) = sessions w"
  "chatState (callback sid ev w) = chatState w"
  "published (callback sid ev w) = published w"
  "clock (callback sid ev w) = clock w"
  "callbacks (callback sid ev w) = callbacks w @ [(sid, ev)]"
  by (simp_all add: callback_def)

lemma showSystemMessage_fields:
  "sessions (showSystemMessage sid msg w) = sessions w"
  "chatState (showSystemMessage sid msg w) = chatState w"
  "published (showSystemMessage sid msg w) = published w"
  "clock (showSystemMessage sid msg w) = clock w"
  "callbacks (showSystemMessage sid msg w) = callbacks w @ [(sid, OnSystemMessage msg)]"
  by (simp_all add: showSystemMessage_def callback_def)


lemma createMessage_fields:
  "sessions (snd (createMessage E ty room nick fp content old w)) = sessions w"
  "chatState (snd (createMessage E ty room nick fp content old w)) = chatState w"
  "published (snd (createMessage E ty room nick fp content old w)) = published w"
  "callbacks (snd (createMessage E ty room nick fp content old w)) = callbacks w"
  "clock (snd (createMessage E ty room nick fp content old w)) = Suc (clock w)"
  by (simp_all add: createMessage_def newUuid_def dateNow_def Let_def)

lemma ChatPubSub_sendMessage_fields:
  "sessions (snd (ChatPubSub_sendMessage E room m w)) = sessions w"
  "chatState (snd (ChatPubSub_sendMessage E room m w)) = chatState w"
  "callbacks (snd (ChatPubSub_sendMessage E room m w)) = callbacks w"
  "clock (snd (ChatPubSub_sendMessage E room m w)) = clock w"
  by (simp_all add: ChatPubSub_sendMessage_def Let_def split: publish_result.splits)

lemma addMessage_fields:
  "sessions (addMessage m w) = sessions w"
  "published (addMessage m w) = published w"
  "clock (addMessage m w) = clock w"
  by (simp_all add: addMessage_def Let_def sessions_emit published_emit clock_emit)

lemma getSession_modifySession:
  "getSession (modifySession sid f w) sid' =
     (if sid' = sid then map_option f (getSession w sid) else getSession w sid')"
  by (auto simp: getSession_def modifySession_def update_conv' split: option.splits)

lemma modifySession_fields:
  "chatState (modifySession sid f w) = chatState w"
  "published (modifySession sid f w) = published w"
  "callbacks (modifySession sid f w) = callbacks w"
  "clock (modifySession sid f w) = clock w"
  by (simp_all add: modifySession_def split: option.splits)


section \<open>A rate-limited send\<close>

lemma rateLimiter_record_refused:
  assumes s: "getSession w sid = Some s"
    and r: "\<not> fst (canProceed (now E (clock w)) (s_rateLimiter s))"
  shows "rateLimiter_record E sid w =
      (False, (modifySession sid
                 (\<lambda>s. s\<lparr>s_rateLimiter := snd (canProceed (now E (clock w)) (s_rateLimiter s))\<rparr>) w)
                \<lparr>clock := Suc (clock w)\<rparr>)"
proof -
  have "record_limiter (now E (clock w)) (now E (Suc (clock w))) (s_rateLimiter s) =
      (False, snd (canProceed (now E (clock w)) (s_rateLimiter s)))"
    using record_limiter_refused [OF r] by (simp add: canProceed_snd)
  moreover have "modifySession sid (\<lambda>x. x\<lparr>s_rateLimiter := snd (canProceed (now E (clock w)) (s_rateLimiter s))\<rparr>) w
      = modifySession sid (\<lambda>x. x\<lparr>s_rateLimiter := snd (canProceed (now E (clock w)) (s_rateLimiter x))\<rparr>) w"
    using s by (simp add: modifySession_def getSession_def)
  ultimately show ?thesis using s by (simp add: rateLimiter_record_def)
qed

lemma sendMessage_refused:
  assumes s: "getSession w sid = Some s" and c: "s_isConnected s"
    and r: "\<not> fst (canProceed (now E (clock w)) (s_rateLimiter s))"
  shows "sendMessage E sid content w =
      showSystemMessage sid ''Rate limit exceeded. Please slow down.''
        ((modifySession sid
            (\<lambda>s. s\<lparr>s_rateLimiter := snd (canProceed (now E (clock w)) (s_rateLimiter s))\<rparr>) w)
           \<lparr>clock := Suc (clock w)\<rparr>)"
  using s c by (simp add: sendMessage_def rateLimiter_record_refused [OF s r])


lemma sendMessage_session:
  assumes s: "getSession w sid = Some s" and c: "s_isConnected s"
  shows "getSession (sendMessage E sid content w) sid =
           Some (s\<lparr>s_rateLimiter :=
                   snd (record_limiter (now E (clock w)) (now E (Suc (clock w))) (s_rateLimiter s))\<rparr>)
         \<and> clock w < clock (sendMessage E sid content w)
         \<and> clock (sendMessage E sid content w) \<le> clock w + 3"
proof -
  obtain ok rl where r: "record_limiter (now E (clock w)) (now E (Suc (clock w))) (s_rateLimiter s) = (ok, rl)"
    by (cases "record_limiter (now E (clock w)) (now E (Suc (clock w))) (s_rateLimiter s)")
  let ?w1 = "(modifySession sid (\<lambda>s. s\<lparr>s_rateLimiter := rl\<rparr>) w)\<lparr>clock := clock w + (if ok then 2 else 1)\<rparr>"
  have rr: "rateLimiter_record E sid w = (ok, ?w1)"
    using s r by (simp add: rateLimiter_record_def)
  have g1: "getSession ?w1 sid = Some (s\<lparr>s_rateLimiter := rl\<rparr>)"
    using s getSession_modifySession [of sid "\<lambda>s. s\<lparr>s_rateLimiter := rl\<rparr>" w sid]
    by (simp add: getSession_def)
  have c1: "clock ?w1 = clock w + (if ok then 2 else 1)" by simp
  have "getSession (sendMessage E sid content w) sid = getSession ?w1 sid
      \<and> clock ?w1 \<le> clock (sendMessage E sid content w)
      \<and> clock (sendMessage E sid content w) \<le> Suc (clock ?w1)"
    using s c
    by (simp add: sendMessage_def rr getSession_def split_beta createTextMessage_def
        showSystemMessage_fields createMessage_fields ChatPubSub_sendMessage_fields
        addMessage_fields callback_fields Let_def split: sum.splits)
  then show ?thesis using g1 c1 r by (auto split: if_splits)
qed

lemma record_in_window:
  assumes win: "\<forall>i<n. \<forall>j<n. now E (c + j) - 1000 < now E (c + i)"
    and ts: "\<forall>x \<in> set (timestamps rl). \<exists>i<n. x = now E (c + i)"
    and a: "Suc a < n"
  shows "record_limiter (now E (c + a)) (now E (Suc (c + a))) rl =
      (if int (length (timestamps rl)) < maxRequests rl
       then (True, rl\<lparr>timestamps := timestamps rl @ [now E (Suc (c + a))]\<rparr>)
       else (False, rl))"
proof -
  have "now E (c + a) - 1000 < x" if "x \<in> set (timestamps rl)" for x
  proof -
    from ts that obtain i where "i < n" "x = now E (c + i)" by blast
    with win a show ?thesis by simp
  qed
  then have keep: "filter (\<lambda>x. now E (c + a) - 1000 < x) (timestamps rl) = timestamps rl"
    by (simp add: filter_id_conv)
  show ?thesis
  proof (cases "int (length (timestamps rl)) < maxRequests rl")
    case True
    then have "fst (canProceed (now E (c + a)) rl)" by (simp add: canProceed_fst keep)
    from record_limiter_admitted [OF this] True show ?thesis by (simp add: keep)
  next
    case False
    then have "\<not> fst (canProceed (now E (c + a)) rl)" by (simp add: canProceed_fst keep)
    from record_limiter_refused [OF this] False show ?thesis by (simp add: keep)
  qed
qed

lemma sendMessage_step:
  assumes win: "\<forall>i<n. \<forall>j<n. now E (c + j) - 1000 < now E (c + i)"
    and s: "getSession w sid = Some s" and con: "s_isConnected s"
    and ts: "\<forall>x \<in> set (timestamps (s_rateLimiter s)). \<exists>i<n. x = now E (c + i)"
    and k: "int (length (timestamps (s_rateLimiter s))) < maxRequests (s_rateLimiter s)"
    and cl: "clock w = c + a" and a: "Suc a < n"
  shows "\<exists>s' a'. getSession (sendMessage E sid content w) sid = Some s' \<and> s_isConnected s'
      \<and> maxRequests (s_rateLimiter s') = maxRequests (s_rateLimiter s)
      \<and> length (timestamps (s_rateLimiter s')) = Suc (length (timestamps (s_rateLimiter s)))
      \<and> (\<forall>x \<in> set (timestamps (s_rateLimiter s')). \<exists>i<n. x = now E (c + i))
      \<and> clock (sendMessage E sid content w) = c + a' \<and> a' \<le> a + 3"
proof -
  let ?rl = "s_rateLimiter s"
  have r: "record_limiter (now E (clock w)) (now E (Suc (clock w))) ?rl =
      (True, ?rl\<lparr>timestamps := timestamps ?rl @ [now E (Suc (c + a))]\<rparr>)"
    using record_in_window [OF win ts a] k by (simp add: cl)
  from sendMessage_session [OF s con, of E content]
  have g: "getSession (sendMessage E sid content w) sid =
      Some (s\<lparr>s_rateLimiter := ?rl\<lparr>timestamps := timestamps ?rl @ [now E (Suc (c + a))]\<rparr>\<rparr>)"
    and lo: "clock w < clock (sendMessage E sid content w)"
    and hi: "clock (sendMessage E sid content w) \<le> clock w + 3"
    by (simp_all add: r)
  from lo cl obtain a' where a': "clock (sendMessage E sid content w) = c + a'"
    by (metis less_imp_add_positive add.assoc)
  with hi cl have "a' \<le> a + 3" by simp
  moreover have "\<exists>i<n. now E (Suc (c + a)) = now E (c + i)"
    using a by (intro exI [of _ "Suc a"]) simp
  ultimately show ?thesis using g a' con ts by auto
qed

text \<open>
  C8. When the limiter of a connected session refuses, \<open>sendMessage\<close> tells that user
  \<^verbatim>\<open>Rate limit exceeded\<close> and nothing else reaches the UI, nothing is published and
  the Directory is as before. With a limit of 3 and a fresh limiter, the fourth of four
  sends whose clock readings lie less than 1000 ms apart is refused in this way.
\<close>

theorem C8_rate_limited_send:
  "(getSession w sid = Some s \<and> s_isConnected s
      \<and> \<not> fst (canProceed (now E (clock w)) (s_rateLimiter s)) \<longrightarrow>
      callbacks (sendMessage E sid content w)
        = callbacks w @ [(sid, OnSystemMessage ''Rate limit exceeded. Please slow down.'')]
      \<and> published (sendMessage E sid content w) = published w
      \<and> chatState (sendMessage E sid content w) = chatState w)
   \<and> (getSession w sid = Some s \<and> s_isConnected s
      \<and> maxRequests (s_rateLimiter s) = 3 \<and> timestamps (s_rateLimiter s) = []
      \<and> (\<forall>i<12. \<forall>j<12. now E (clock w + j) - 1000 < now E (clock w + i)) \<longrightarrow>
      callbacks (sendMessage E sid c4 (sendMessages E sid [c1, c2, c3] w))
        = callbacks (sendMessages E sid [c1, c2, c3] w)
            @ [(sid, OnSystemMessage ''Rate limit exceeded. Please slow down.'')]
      \<and> published (sendMessage E sid c4 (sendMessages E sid [c1, c2, c3] w))
        = published (sendMessages E sid [c1, c2, c3] w)
      \<and> chatState (sendMessage E sid c4 (sendMessages E sid [c1, c2, c3] w))
        = chatState (sendMessages E sid [c1, c2, c3] w))"
proof (intro conjI impI)
  have refused: "callbacks (sendMessage E sid content w)
        = callbacks w @ [(sid, OnSystemMessage ''Rate limit exceeded. Please slow down.'')]
      \<and> published (sendMessage E sid content w) = published w
      \<and> chatState (sendMessage E sid content w) = chatState w"
    if "getSession w sid = Some s" "s_isConnected s"
      "\<not> fst (canProceed (now E (clock w)) (s_rateLimiter s))" for w s content
    using sendMessage_refused [OF that, of content]
    by (simp add: showSystemMessage_fields modifySession_fields)
  {
    assume h: "getSession w sid = Some s \<and> s_isConnected s
      \<and> \<not> fst (canProceed (now E (clock w)) (s_rateLimiter s))"
    then have r: "callbacks (sendMessage E sid content w)
        = callbacks w @ [(sid, OnSystemMessage ''Rate limit exceeded. Please slow down.'')]
      \<and> published (sendMessage E sid content w) = published w
      \<and> chatState (sendMessage E sid content w) = chatState w"
      using refused [of w s content] by blast
    from r show "callbacks (sendMessage E sid content w)
        = callbacks w @ [(sid, OnSystemMessage ''Rate limit exceeded. Please slow down.'')]" by blast
    from r show "published (sendMessage E sid content w) = published w" by blast
    from r show "chatState (sendMessage E sid content w) = chatState w" by blast
  }
  {
    assume h: "getSession w sid = Some s \<and> s_isConnected s
      \<and> maxRequests (s_rateLimiter s) = 3 \<and> timestamps (s_rateLimiter s) = []
      \<and> (\<forall>i<12. \<forall>j<12. now E (clock w + j) - 1000 < now E (clock w + i))"
    let ?c = "clock w"
    let ?w1 = "sendMessage E sid c1 w"
    let ?w2 = "sendMessage E sid c2 ?w1"
    let ?w3 = "sendMessage E sid c3 ?w2"
    have w3: "sendMessages E sid [c1, c2, c3] w = ?w3" by (simp add: sendMessages_def)
    from h have win: "\<forall>i<12. \<forall>j<12. now E (?c + j) - 1000 < now E (?c + i)" by blast
    from h have s0: "getSession w sid = Some s" "s_isConnected s"
      "maxRequests (s_rateLimiter s) = 3" "timestamps (s_rateLimiter s) = []" by blast+
    from sendMessage_step [OF win s0(1) s0(2), of 0 c1] s0(3) s0(4)
    obtain s1 a1 where s1: "getSession ?w1 sid = Some s1" "s_isConnected s1"
      "maxRequests (s_rateLimiter s1) = 3" "length (timestamps (s_rateLimiter s1)) = 1"
      "\<forall>x \<in> set (timestamps (s_rateLimiter s1)). \<exists>i<12. x = now E (?c + i)"
      "clock ?w1 = ?c + a1" "a1 \<le> 3" by auto
    from sendMessage_step [OF win s1(1) s1(2) s1(5) _ s1(6), of c2] s1(3) s1(4) s1(7)
    obtain s2 a2 where s2: "getSession ?w2 sid = Some s2" "s_isConnected s2"
      "maxRequests (s_rateLimiter s2) = 3" "length (timestamps (s_rateLimiter s2)) = 2"
      "\<forall>x \<in> set (timestamps (s_rateLimiter s2)). \<exists>i<12. x = now E (?c + i)"
      "clock ?w2 = ?c + a2" "a2 \<le> 6" by auto
    from sendMessage_step [OF win s2(1) s2(2) s2(5) _ s2(6), of c3] s2(3) s2(4) s2(7)
    obtain s3 a3 where s3: "getSession ?w3 sid = Some s3" "s_isConnected s3"
      "maxRequests (s_rateLimiter s3) = 3" "length (timestamps (s_rateLimiter s3)) = 3"
      "\<forall>x \<in> set (timestamps (s_rateLimiter s3)). \<exists>i<12. x = now E (?c + i)"
      "clock ?w3 = ?c + a3" "a3 \<le> 9" by auto
    have "now E (?c + a3) - 1000 < x" if "x \<in> set (timestamps (s_rateLimiter s3))" for x
    proof -
      from s3(5) that obtain i where "i < 12" "x = now E (?c + i)" by blast
      with win s3(7) show ?thesis by simp
    qed
    then have "filter (\<lambda>x. now E (clock ?w3) - 1000 < x) (timestamps (s_rateLimiter s3))
        = timestamps (s_rateLimiter s3)"
      by (simp add: filter_id_conv s3(6))
    then have "\<not> fst (canProceed (now E (clock ?w3)) (s_rateLimiter s3))"
      using s3(3) s3(4) by (simp add: canProceed_fst)
    from refused [OF s3(1) s3(2) this, of c4]
    have r: "callbacks (sendMessage E sid c4 ?w3)
        = callbacks ?w3 @ [(sid, OnSystemMessage ''Rate limit exceeded. Please slow down.'')]
      \<and> published (sendMessage E sid c4 ?w3) = published ?w3
      \<and> chatState (sendMessage E sid c4 ?w3) = chatState ?w3" .
    from r show "callbacks (sendMessage E sid c4 (sendMessages E sid [c1, c2, c3] w))
        = callbacks (sendMessages E sid [c1, c2, c3] w)
            @ [(sid, OnSystemMessage ''Rate limit exceeded. Please slow down.'')]"
      unfolding w3 by blast
    from r show "published (sendMessage E sid c4 (sendMessages E sid [c1, c2, c3] w))
        = published (sendMessages E sid [c1, c2, c3] w)" unfolding w3 by blast
    from r show "chatState (sendMessage E sid c4 (sendMessages E sid [c1, c2, c3] w))
        = chatState (sendMessages E sid [c1, c2, c3] w)" unfolding w3 by blast
  }
qed

theorem C8_rate_limited_send_witness:
  "callbacks (sendMessage sampleEnv ''id0'' ''more'' sampleWorldLimited)
     = callbacks sampleWorldLimited
         @ [(''id0'', OnSystemMessage ''Rate limit exceeded. Please slow down.'')]
   \<and> callbacks (sendMessage sampleEnv ''id0'' ''four''
                  (sendMessages sampleEnv ''id0'' [''one'', ''two'', ''three''] sampleWorld1))
     = callbacks (sendMessages sampleEnv ''id0'' [''one'', ''two'', ''three''] sampleWorld1)
         @ [(''id0'', OnSystemMessage ''Rate limit exceeded. Please slow down.'')]
   \<and> chatState (sendMessage sampleEnv ''id0'' ''four''
                  (sendMessages sampleEnv ''id0'' [''one'', ''two'', ''three''] sampleWorld1))
     = chatState (sendMessages sampleEnv ''id0'' [''one'', ''two'', ''three''] sampleWorld1)"
proof -
  have a: "getSession sampleWorldLimited ''id0'' = Some sampleSession"
    by (simp add: sampleWorldLimited_def getSession_def)
  have b: "s_isConnected sampleSession
      \<and> \<not> fst (canProceed (now sampleEnv (clock sampleWorldLimited)) (s_rateLimiter sampleSession))"
    by (simp add: sampleSession_def sampleWorldLimited_def sampleEnv_def canProceed_fst)
  have c: "\<forall>i<12. \<forall>j<12. now sampleEnv (clock sampleWorld1 + j) - 1000
      < now sampleEnv (clock sampleWorld1 + i)"
    by (simp add: sampleEnv_def)
  show ?thesis
    using a b c sampleWorld1_session
      C8_rate_limited_send [where w = sampleWorldLimited and sid = "''id0''" and E = sampleEnv
        and s = sampleSession and content = "''more''"]
      C8_rate_limited_send [where w = sampleWorld1 and sid = "''id0''" and E = sampleEnv
        and s = "\<lparr>s_config = sampleConfig, s_fingerprint = ''AAAAAAAA'', s_nick = ''anon_AAAAAA'',
           s_room = ''lobby'', s_isConnected = True,
           s_rateLimiter = \<lparr>timestamps = [], maxRequests = 3\<rparr>,
           s_subscriptions = [''lobby'']\<rparr>"
        and ?c1.0 = "''one''" and ?c2.0 = "''two''" and ?c3.0 = "''three''" and ?c4.0 = "''four''"]
    by simp
qed



section \<open>Operations of a session that is not connected\<close>















section \<open>Cleaning up one session\<close>

text \<open>
  C2. \<open>destroy\<close> ends with \<^verbatim>\<open>this.chatState.removeAllListeners()\<close> on the shared
  Directory, so after it the Directory has no listener at all. In the world of two started
  sessions, the second one has its listener for \<^verbatim>\<open>message\<close> and is shown a message
  added to its room; once the first session is destroyed the second is still connected, but
  the same message added to the Directory reaches no callback.
\<close>

theorem C2_destroy_detaches_every_listener:
  "listeners (chatState (destroy E sid w)) = []
   \<and> (EvMessage, ''id2'') \<in> set (listeners (chatState sampleWorld2))
   \<and> (''id2'', OnMessage (sampleMessage ''m9'' ''lobby'' ''CCCCCCCC''))
       \<in> set (callbacks (addMessage (sampleMessage ''m9'' ''lobby'' ''CCCCCCCC'') sampleWorld2))
   \<and> map_option s_isConnected (getSession (destroy sampleEnv ''id0'' sampleWorld2) ''id2'') = Some True
   \<and> callbacks (addMessage (sampleMessage ''m9'' ''lobby'' ''CCCCCCCC'')
                  (destroy sampleEnv ''id0'' sampleWorld2))
       = callbacks (destroy sampleEnv ''id0'' sampleWorld2)"
proof -
  have "listeners (chatState (destroy E sid w)) = []"
    by (simp add: destroy_def removeAllListeners_def)
  moreover have "(EvMessage, ''id2'') \<in> set (listeners (chatState sampleWorld2))
   \<and> (''id2'', OnMessage (sampleMessage ''m9'' ''lobby'' ''CCCCCCCC''))
       \<in> set (callbacks (addMessage (sampleMessage ''m9'' ''lobby'' ''CCCCCCCC'') sampleWorld2))
   \<and> map_option s_isConnected (getSession (destroy sampleEnv ''id0'' sampleWorld2) ''id2'') = Some True
   \<and> callbacks (addMessage (sampleMessage ''m9'' ''lobby'' ''CCCCCCCC'')
                  (destroy sampleEnv ''id0'' sampleWorld2))
       = callbacks (destroy sampleEnv ''id0'' sampleWorld2)"
    by code_simp
  ultimately show ?thesis by blast
qed

section \<open>Characters and their codes\<close>

lemma char_eq_code: "(c = char_of n) = ((of_char c :: nat) = n mod 256)"
  by (metis char_of_char of_char_of)



section \<open>UTF-8\<close>

lemma decode_encode_char:
  "TextDecoder_decode
     ((let n = (of_char c :: nat) in if n < 128 then [n] else [192 + n div 64, 128 + n mod 64]) @ bs)
   = map_option ((#) c) (TextDecoder_decode bs)"
proof (cases "(of_char c :: nat) < 128")
  case True
  then show ?thesis by (simp add: Let_def)
next
  case False
  let ?n = "of_char c :: nat"
  have b: "?n < 256" by simp
  from False b have d: "?n div 64 = 2 \<or> ?n div 64 = 3" by arith
  have v: "(192 + ?n div 64 - 192) * 64 + (128 + ?n mod 64 - 128) = ?n" by simp
  have "char_of ((192 + ?n div 64 - 192) * 64 + (128 + ?n mod 64 - 128)) = c"
    unfolding v by simp
  then show ?thesis using False d by (auto simp: Let_def)
qed

lemma TextDecoder_TextEncoder:
  "TextDecoder_decode (TextEncoder_encode s @ bs) = map_option ((@) s) (TextDecoder_decode bs)"
proof (induction s)
  case Nil
  show ?case by (simp add: TextEncoder_encode_def option.map_ident)
next
  case (Cons c s)
  have "TextEncoder_encode (c # s) @ bs =
      (let n = (of_char c :: nat) in if n < 128 then [n] else [192 + n div 64, 128 + n mod 64])
        @ (TextEncoder_encode s @ bs)"
    by (simp add: TextEncoder_encode_def)
  then show ?case
    by (simp only: decode_encode_char Cons.IH) (simp add: option.map_comp comp_def)
qed

section \<open>Strings of JSON\<close>






section \<open>Numbers of JSON\<close>


lemma digit_value: "(d::nat) < 10 \<Longrightarrow> (of_char (char_of (48 + d)) :: nat) - 48 = d"
  by simp







section \<open>Members of an object\<close>





lemma quote_length: "0 < length (quoteJSONString s)"
  by (simp add: quoteJSONString_def)









section \<open>Encoding and decoding a message\<close>

lemma decodeMessage_encode: "decodeMessage (TextEncoder_encode text) = JSON_parse text"
  using TextDecoder_TextEncoder [of "text" "[]"] by (simp add: decodeMessage_def)






text \<open>Decoding checks the syntax only: the empty object decodes, to a message without fields.\<close>

lemma decodeMessage_checks_no_field:
  "decodeMessage (TextEncoder_encode ''{}'') = Inr (JObject [])"
  by (simp add: decodeMessage_encode JSON_parse_def parseObject_def skipSpace_def isJsonSpace_def)



end
